theory Spec2Isabelle
  imports Main
begin

section \<open>Go library functions on strings\<close>

text \<open>
  A Go string is a sequence of bytes; it is modelled as \<^typ>\<open>string\<close>, a list of
  8-bit characters. The functions of package \<open>strings\<close> that the clients call are
  written out from their documented behaviour.
\<close>

definition strings_HasSuffix :: "string \<Rightarrow> string \<Rightarrow> bool" where
  "strings_HasSuffix s suf \<longleftrightarrow>
     length suf \<le> length s \<and> drop (length s - length suf) s = suf"

definition strings_TrimSuffix :: "string \<Rightarrow> string \<Rightarrow> string" where
  "strings_TrimSuffix s suf =
     (if strings_HasSuffix s suf then take (length s - length suf) s else s)"

text \<open>
  \<open>strings.Split(s, sep)\<close> with a one-byte separator, which is how the source
  calls it: the pieces of \<open>s\<close> between the occurrences of the separator, one more
  than there are occurrences.
\<close>

fun strings_Split :: "string \<Rightarrow> char \<Rightarrow> string list" where
  "strings_Split [] sep = [[]]"
| "strings_Split (c # cs) sep =
     (if c = sep then [] # strings_Split cs sep
      else (case strings_Split cs sep of
              [] \<Rightarrow> [[c]]
            | p # ps \<Rightarrow> (c # p) # ps))"

section \<open>Go library functions of package fmt\<close>

text \<open>
  Go's \<open>int\<close> is taken to be 64 bits wide, as it is on the 64-bit platforms the client
  is built for; its values are the integers from \<open>- 2 ^ 63\<close> to \<open>2 ^ 63 - 1\<close>.
\<close>

definition int_min :: int where
  "int_min = - (2 ^ 63)"

definition int_max :: int where
  "int_max = 2 ^ 63 - 1"

definition digit_char :: "nat \<Rightarrow> char" where
  "digit_char d = ''0123456789'' ! d"

function fmt_digits :: "nat \<Rightarrow> string" where
  "fmt_digits n = (if n < 10 then [digit_char n] else fmt_digits (n div 10) @ [digit_char (n mod 10)])"
  by pat_completeness auto
termination
  by (relation "measure id") auto

declare fmt_digits.simps [simp del]

text \<open>The verb \<open>%d\<close> of \<open>fmt.Sprintf\<close>: a minus sign for a negative number, then the decimal digits.\<close>

definition fmt_Sprintf_d :: "int \<Rightarrow> string" where
  "fmt_Sprintf_d i = (if i < 0 then CHR ''-'' # fmt_digits (nat (- i)) else fmt_digits (nat i))"

text \<open>
  \<open>fmt.Sscanf(str, "%d", &port)\<close>. The scanner skips leading white space (a newline
  is an error), accepts one optional sign, requires at least one decimal digit, takes
  all the digits that follow and converts the token with \<open>strconv.ParseInt(tok, 10, 64)\<close>,
  which fails when the value does not fit 64 bits. Input after the last digit is not
  looked at: \<open>Sscanf\<close> reports no error for it.

  The white space of package \<open>fmt\<close> is the set of code points U+0009..U+000D, U+0020,
  U+0085, U+00A0, U+1680, U+2000..U+200A, U+2028, U+2029, U+202F, U+205F and U+3000;
  \<open>space_width\<close> is the number of bytes of the UTF-8 encoding of such a code point at
  the head of the input (\<open>0\<close> when there is none). U+000A, the newline, is treated
  apart by \<open>SkipSpace\<close>.
\<close>

definition space_width :: "string \<Rightarrow> nat" where
  "space_width s =
     (case map of_char s of
        [] \<Rightarrow> 0
      | (b0 :: nat) # r0 \<Rightarrow>
          if (9 \<le> b0 \<and> b0 \<le> 13) \<or> b0 = 32 then 1
          else (case r0 of
             [] \<Rightarrow> 0
           | b1 # r1 \<Rightarrow>
               if b0 = 0xC2 \<and> (b1 = 0x85 \<or> b1 = 0xA0) then 2
               else (case r1 of
                  [] \<Rightarrow> 0
                | b2 # r2 \<Rightarrow>
                    if b0 = 0xE1 \<and> b1 = 0x9A \<and> b2 = 0x80 then 3
                    else if b0 = 0xE2 \<and> b1 = 0x80 \<and>
                            ((0x80 \<le> b2 \<and> b2 \<le> 0x8A) \<or> b2 = 0xA8 \<or> b2 = 0xA9 \<or> b2 = 0xAF) then 3
                    else if b0 = 0xE2 \<and> b1 = 0x81 \<and> b2 = 0x9F then 3
                    else if b0 = 0xE3 \<and> b1 = 0x80 \<and> b2 = 0x80 then 3
                    else 0)))"

function SkipSpace :: "string \<Rightarrow> string option" where
  "SkipSpace s =
     (case s of
        [] \<Rightarrow> Some []
      | c # cs \<Rightarrow>
          if c = CHR 0x0A then None
          else if 0 < space_width s then SkipSpace (drop (space_width s) s)
          else Some s)"
  by pat_completeness auto
termination
  by (relation "measure length") auto

declare SkipSpace.simps [simp del]

definition is_digit :: "char \<Rightarrow> bool" where
  "is_digit c \<longleftrightarrow> 48 \<le> (of_char c :: nat) \<and> (of_char c :: nat) \<le> 57"

definition digit_val :: "char \<Rightarrow> nat" where
  "digit_val c = of_char c - 48"

text \<open>The value of a digit string, most significant digit first.\<close>

definition digits_val :: "string \<Rightarrow> nat" where
  "digits_val ds = foldl (\<lambda>acc c. 10 * acc + digit_val c) 0 ds"

text \<open>
  \<open>strconv.ParseInt(s, 10, 64)\<close>: an optional sign, then one or more decimal digits
  and nothing else; the value must lie between \<open>- 2 ^ 63\<close> and \<open>2 ^ 63 - 1\<close>.
\<close>

definition strconv_ParseInt :: "string \<Rightarrow> int option" where
  "strconv_ParseInt s =
     (case s of
        [] \<Rightarrow> None
      | c # cs \<Rightarrow>
          (let neg = (c = CHR ''-'');
               ds = (if c = CHR ''+'' \<or> c = CHR ''-'' then cs else s);
               un = digits_val ds
           in if ds = [] then None
              else if list_all is_digit ds then
                (if neg then (if un > 2 ^ 63 then None else Some (- int un))
                 else (if un \<ge> 2 ^ 63 then None else Some (int un)))
              else None))"

text \<open>
  \<open>scanInt\<close> collects the token (the sign, if there is one, and the run of digits
  after it) and hands it to \<open>strconv.ParseInt\<close>; what follows the token stays unread.
\<close>

definition scanInt :: "string \<Rightarrow> int option" where
  "scanInt s =
     (case s of
        [] \<Rightarrow> None
      | c # cs \<Rightarrow>
          (let signed = (c = CHR ''+'' \<or> c = CHR ''-'');
               ds = takeWhile is_digit (if signed then cs else s);
               tok = (if signed then c # ds else ds)
           in if ds = [] then None else strconv_ParseInt tok))"

definition fmt_Sscanf_d :: "string \<Rightarrow> int option" where
  "fmt_Sscanf_d str = (case SkipSpace str of None \<Rightarrow> None | Some s \<Rightarrow> scanInt s)"

section \<open>Errors\<close>

text \<open>
  A Go \<open>error\<close> made by \<open>fmt.Errorf\<close> is modelled by its text. Where the format
  wraps an error of the standard library with \<open>%w\<close>, the text of that cause is the
  library's: the model keeps the text before the cause, the kind of the cause and the
  text after it.
\<close>

datatype lib_error =
    RequestError
  | NetError
  | JSONSyntaxError
  | JSONTypeError
  | JSONMarshalError

datatype error =
    Errorf string
  | Errorf_w string lib_error string

section \<open>Instance keys\<close>

record InstanceKey =
  Hostname :: string
  Port :: int

text \<open>
  \<^verbatim>\<open>
  func (key InstanceKey) String() string {
      return fmt.Sprintf("%s:%d", key.Hostname, key.Port)
  }
  \<close>
\<close>

definition InstanceKey_String :: "InstanceKey \<Rightarrow> string" where
  "InstanceKey_String key = Hostname key @ '':'' @ fmt_Sprintf_d (Port key)"

text \<open>
  \<^verbatim>\<open>
  func ParseInstanceKey(hostPort string) (InstanceKey, error) {
      parts := strings.Split(hostPort, ":")
      if len(parts) != 2 {
          return InstanceKey{}, fmt.Errorf("invalid instance key format: %s", hostPort)
      }
      var port int
      _, err := fmt.Sscanf(parts[1], "%d", &port)
      if err != nil {
          return InstanceKey{}, fmt.Errorf("invalid port in instance key: %s", parts[1])
      }
      return InstanceKey{Hostname: parts[0], Port: port}, nil
  }
  \<close>
\<close>

definition ParseInstanceKey :: "string \<Rightarrow> error + InstanceKey" where
  "ParseInstanceKey hostPort =
     (case strings_Split hostPort (CHR '':'') of
        [host, p] \<Rightarrow>
          (case fmt_Sscanf_d p of
             None \<Rightarrow> Inl (Errorf (''invalid port in instance key: '' @ p))
           | Some port \<Rightarrow> Inr \<lparr>Hostname = host, Port = port\<rparr>)
      | _ \<Rightarrow> Inl (Errorf (''invalid instance key format: '' @ hostPort)))"

section \<open>String-code client: endpoint normalisation\<close>

text \<open>
  \<^verbatim>\<open>
  func normalizeURL(baseURL string) string {
      baseURL = strings.TrimSuffix(baseURL, "/")
      if !strings.HasSuffix(baseURL, "/api") {
          baseURL += "/api"
      }
      return baseURL
  }
  \<close>
\<close>

definition normalizeURL :: "string \<Rightarrow> string" where
  "normalizeURL baseURL =
     (let b = strings_TrimSuffix baseURL ''/''
      in if \<not> strings_HasSuffix b ''/api'' then b @ ''/api'' else b)"

text \<open>
  \<open>normalizeEndpoints\<close> appends the normalised form of each endpoint, in order, to
  an initially empty slice.
\<close>

fun normalizeEndpoints_loop :: "string list \<Rightarrow> string list \<Rightarrow> string list" where
  "normalizeEndpoints_loop normalized [] = normalized"
| "normalizeEndpoints_loop normalized (endpoint # rest) =
     normalizeEndpoints_loop (normalized @ [normalizeURL endpoint]) rest"

definition normalizeEndpoints :: "string list \<Rightarrow> string list" where
  "normalizeEndpoints endpoints = normalizeEndpoints_loop [] endpoints"


section \<open>JSON documents and decoded values\<close>

text \<open>
  The syntax of JSON is not modelled: a response body is given as its text together with
  the JSON document the text denotes, when it denotes one. A number keeps its literal,
  from which \<open>encoding/json\<close> reads an integer with \<open>strconv.ParseInt\<close>, and the
  \<open>float64\<close> it reads from the literal with \<open>strconv.ParseFloat\<close> (\<open>None\<close> when
  the literal is out of the range of \<open>float64\<close>). The type \<open>'f\<close> stands for the
  finite values of Go's \<open>float64\<close>; floating-point arithmetic is not modelled.
\<close>

datatype 'f json =
    JNull
  | JBool bool
  | JNumber string "'f option"
  | JString string
  | JArray "'f json list"
  | JObject "(string \<times> 'f json) list"

text \<open>
  A value of type \<open>interface{}\<close>. Decoding JSON into an \<open>interface{}\<close> gives \<open>nil\<close>,
  a \<open>bool\<close>, a \<open>float64\<close>, a \<open>string\<close>, a \<open>[]interface{}\<close> or a
  \<open>map[string]interface{}\<close>; \<open>int64\<close> and \<open>int\<close> are the two further dynamic types
  that the source tests for. A map is kept as the list of its entries in the order they
  were decoded, a later entry for the same key overriding an earlier one. Strings inside
  decoded values are valid UTF-8, which \<open>json.Marshal\<close> followed by \<open>json.Unmarshal\<close>
  leaves as they are.
\<close>

datatype 'f goval =
    GoNil
  | GoBool bool
  | GoFloat64 'f
  | GoInt64 int
  | GoInt int
  | GoString string
  | GoSlice "'f goval list"
  | GoMap "(string \<times> 'f goval) list"

text \<open>Decoding a JSON document into an \<open>interface{}\<close>; \<open>None\<close> is a decoding error.\<close>

fun valueInterface :: "'f json \<Rightarrow> 'f goval option"
  and arrayInterface :: "'f json list \<Rightarrow> 'f goval list option"
  and objectInterface :: "(string \<times> 'f json) list \<Rightarrow> (string \<times> 'f goval) list option"
where
  "valueInterface JNull = Some GoNil"
| "valueInterface (JBool b) = Some (GoBool b)"
| "valueInterface (JNumber lit f) = map_option GoFloat64 f"
| "valueInterface (JString s) = Some (GoString s)"
| "valueInterface (JArray xs) = map_option GoSlice (arrayInterface xs)"
| "valueInterface (JObject ms) = map_option GoMap (objectInterface ms)"
| "arrayInterface [] = Some []"
| "arrayInterface (x # xs) =
     (case valueInterface x of
        None \<Rightarrow> None
      | Some v \<Rightarrow> map_option ((#) v) (arrayInterface xs))"
| "objectInterface [] = Some []"
| "objectInterface (m # ms) =
     (case valueInterface (snd m) of
        None \<Rightarrow> None
      | Some v \<Rightarrow> map_option ((#) (fst m, v)) (objectInterface ms))"

text \<open>
  \<open>encoding/json\<close> matches the key of an object member with a struct field by the
  folded name: ASCII letters are put in upper case, and the two non-ASCII code points
  whose case folding is an ASCII letter, U+017F (long s) and U+212A (Kelvin sign), are
  replaced by \<open>S\<close> and \<open>K\<close>. Every other byte is kept here as it is, which decides the
  same matches with the ASCII field names of the envelope.
\<close>

definition ascii_upper :: "char \<Rightarrow> char" where
  "ascii_upper c =
     (case map_of (zip ''abcdefghijklmnopqrstuvwxyz'' ''ABCDEFGHIJKLMNOPQRSTUVWXYZ'') c of
        None \<Rightarrow> c
      | Some u \<Rightarrow> u)"

function foldName :: "string \<Rightarrow> string" where
  "foldName [] = []"
| "foldName (c # cs) =
     (if (of_char c :: nat) < 128 then ascii_upper c # foldName cs
      else if c = CHR 0xC5 \<and> take 1 cs = [CHR 0xBF] then CHR ''S'' # foldName (drop 1 cs)
      else if c = CHR 0xE2 \<and> take 2 cs = [CHR 0x84, CHR 0xAA] then CHR ''K'' # foldName (drop 2 cs)
      else c # foldName cs)"
  by pat_completeness auto
termination
  by (relation "measure length") auto

declare foldName.simps [simp del]

definition fieldMatch :: "string \<Rightarrow> string \<Rightarrow> bool" where
  "fieldMatch key field \<longleftrightarrow> foldName key = foldName field"

section \<open>Integer-code client: the envelope\<close>

text \<open>
  \<^verbatim>\<open>
  type APIResponseCode int

  const (
      // ERROR indicates an error response
      ERROR APIResponseCode = iota
      // OK indicates a successful response
      OK
  )

  type APIResponse struct {
      Code    APIResponseCode `json:"Code"`
      Message string          `json:"Message"`
      Details interface{}     `json:"Details"`
  }
  \<close>
\<close>

type_synonym APIResponseCode = int

definition ERROR :: APIResponseCode where
  "ERROR = 0"

definition OK :: APIResponseCode where
  "OK = 1"

record 'f APIResponse =
  Code :: APIResponseCode
  Message :: string
  Details :: "'f goval"

text \<open>The zero value of the struct, what \<open>var response APIResponse\<close> declares.\<close>

definition zero_APIResponse :: "'f APIResponse" where
  "zero_APIResponse = \<lparr>Code = 0, Message = [], Details = GoNil\<rparr>"

text \<open>
  \<open>json.Unmarshal\<close> into an \<open>APIResponse\<close>. The members of the object are taken in
  order. A member whose key matches no field is skipped. A \<open>null\<close> leaves an integer or
  a string field as it is and sets the \<open>interface{}\<close> field to \<open>nil\<close>. A number is
  stored in \<open>Code\<close> when \<open>strconv.ParseInt\<close> reads its literal; a value of another
  JSON type for \<open>Code\<close> or \<open>Message\<close> is a type error. A document that is \<open>null\<close>
  leaves the struct as it is, and a document that is neither \<open>null\<close> nor an object is a
  type error. \<open>None\<close> stands for the error that \<open>Unmarshal\<close> returns.
\<close>

fun unmarshal_members :: "(string \<times> 'f json) list \<Rightarrow> 'f APIResponse \<Rightarrow> 'f APIResponse option" where
  "unmarshal_members [] r = Some r"
| "unmarshal_members (m # ms) r =
     (if fieldMatch (fst m) ''Code'' then
        (case snd m of
           JNull \<Rightarrow> unmarshal_members ms r
         | JNumber lit f \<Rightarrow>
             (case strconv_ParseInt lit of
                None \<Rightarrow> None
              | Some n \<Rightarrow> unmarshal_members ms (r\<lparr>Code := n\<rparr>))
         | _ \<Rightarrow> None)
      else if fieldMatch (fst m) ''Message'' then
        (case snd m of
           JNull \<Rightarrow> unmarshal_members ms r
         | JString s \<Rightarrow> unmarshal_members ms (r\<lparr>Message := s\<rparr>)
         | _ \<Rightarrow> None)
      else if fieldMatch (fst m) ''Details'' then
        (case valueInterface (snd m) of
           None \<Rightarrow> None
         | Some v \<Rightarrow> unmarshal_members ms (r\<lparr>Details := v\<rparr>))
      else unmarshal_members ms r)"

definition unmarshal_APIResponse :: "'f json \<Rightarrow> 'f APIResponse \<Rightarrow> 'f APIResponse option" where
  "unmarshal_APIResponse doc r =
     (case doc of
        JNull \<Rightarrow> Some r
      | JObject ms \<Rightarrow> unmarshal_members ms r
      | _ \<Rightarrow> None)"

section \<open>Integer-code client: transport\<close>

text \<open>
  The HTTP exchange is the environment of the client: a function from the method and the
  URL of a request to its outcome. Either the request cannot be created, or sending it
  fails, or a response arrives.
\<close>

record 'f http_response =
  StatusCode :: int
  Body :: string
  BodyJSON :: "'f json option"

datatype 'f transport =
    NewRequestFailed
  | DoFailed
  | Response "'f http_response"

record Client =
  baseURL :: string
  username :: string
  password :: string
  urlPrefix :: string

definition doRequest :: "(string \<Rightarrow> string \<Rightarrow> 'f transport) \<Rightarrow> Client \<Rightarrow> string \<Rightarrow> string \<Rightarrow> error + 'f http_response" where
  "doRequest net c method path =
     (let url = baseURL c @ urlPrefix c @ path
      in case net method url of
           NewRequestFailed \<Rightarrow> Inl (Errorf_w ''failed to create request: '' RequestError [])
         | DoFailed \<Rightarrow> Inl (Errorf_w ''failed to execute request: '' NetError [])
         | Response resp \<Rightarrow> Inr resp)"

definition get :: "(string \<Rightarrow> string \<Rightarrow> 'f transport) \<Rightarrow> Client \<Rightarrow> string \<Rightarrow> error + 'f http_response" where
  "get net c path = doRequest net c ''GET'' path"

text \<open>
  \<^verbatim>\<open>
  func (c *Client) parseResponse(resp *http.Response, target interface{}) error {
      defer resp.Body.Close()
      body, err := io.ReadAll(resp.Body)
      if err != nil {
          return fmt.Errorf("failed to read response body: %w", err)
      }
      if resp.StatusCode >= 400 {
          return fmt.Errorf("API request failed with status %d: %s", resp.StatusCode, string(body))
      }
      if target != nil {
          if err := json.Unmarshal(body, target); err != nil {
              return fmt.Errorf("failed to parse response: %w (body: %s)", err, string(body))
          }
      }
      return nil
  }
  \<close>
  The target is always the address of a freshly declared \<open>APIResponse\<close> in the
  operations modelled here; the body has been read when the response is given.
\<close>

definition parseResponse :: "'f http_response \<Rightarrow> 'f APIResponse \<Rightarrow> error + 'f APIResponse" where
  "parseResponse resp target =
     (if StatusCode resp \<ge> 400 then
        Inl (Errorf (''API request failed with status '' @ fmt_Sprintf_d (StatusCode resp)
                      @ '': '' @ Body resp))
      else
        (case BodyJSON resp of
           None \<Rightarrow> Inl (Errorf_w ''failed to parse response: '' JSONSyntaxError
                          ('' (body: '' @ Body resp @ '')''))
         | Some doc \<Rightarrow>
             (case unmarshal_APIResponse doc target of
                None \<Rightarrow> Inl (Errorf_w ''failed to parse response: '' JSONTypeError
                               ('' (body: '' @ Body resp @ '')''))
              | Some r \<Rightarrow> Inr r)))"

definition getJSON :: "(string \<Rightarrow> string \<Rightarrow> 'f transport) \<Rightarrow> Client \<Rightarrow> string \<Rightarrow> error + 'f APIResponse" where
  "getJSON net c path =
     (case get net c path of
        Inl err \<Rightarrow> Inl err
      | Inr resp \<Rightarrow> parseResponse resp zero_APIResponse)"


section \<open>Integer-code client: conversion helpers\<close>

text \<open>
  A Go slice or map is either \<open>nil\<close> or holds elements: \<open>None\<close> is the \<open>nil\<close>
  collection and \<open>Some []\<close> the empty collection that is not \<open>nil\<close>.

  The helpers convert the decoded \<open>Details\<close> by \<open>json.Marshal\<close> followed by
  \<open>json.Unmarshal\<close> into the target type. For a target that is a struct or a slice of
  structs this pair of library calls is a parameter \<open>conv\<close> of the model: it returns the
  converted value or the kind of the library's error.
\<close>

definition remarshal_error :: "string \<Rightarrow> lib_error \<Rightarrow> error" where
  "remarshal_error unmarshal_text e =
     (if e = JSONMarshalError then Errorf_w ''failed to marshal data: '' e []
      else Errorf_w unmarshal_text e [])"

definition convertToInstance :: "('f goval \<Rightarrow> lib_error + 'i) \<Rightarrow> 'f goval \<Rightarrow> error + 'i" where
  "convertToInstance conv data =
     (if data = GoNil then Inl (Errorf ''nil data'')
      else (case conv data of
              Inl e \<Rightarrow> Inl (remarshal_error ''failed to unmarshal to Instance: '' e)
            | Inr instance \<Rightarrow> Inr instance))"

definition convertToInstanceSlice :: "('f goval \<Rightarrow> lib_error + 'i list option) \<Rightarrow> 'f goval \<Rightarrow> error + 'i list option" where
  "convertToInstanceSlice conv data =
     (if data = GoNil then Inr (Some [])
      else (case conv data of
              Inl e \<Rightarrow> Inl (remarshal_error ''failed to unmarshal to []Instance: '' e)
            | Inr instances \<Rightarrow> Inr instances))"

text \<open>
  \<open>json.Marshal\<close> of a decoded value followed by \<open>json.Unmarshal\<close> into a
  \<open>[]string\<close>: \<open>null\<close> leaves the slice \<open>nil\<close>; an array gives its elements, where
  a \<open>null\<close> element is the empty string and an element that is not a string is a type
  error; any other document is a type error.
\<close>

fun string_elems :: "'f goval list \<Rightarrow> string list option" where
  "string_elems [] = Some []"
| "string_elems (GoString s # vs) = map_option ((#) s) (string_elems vs)"
| "string_elems (GoNil # vs) = map_option ((#) []) (string_elems vs)"
| "string_elems (v # vs) = None"

definition remarshal_string_slice :: "'f goval \<Rightarrow> lib_error + string list option" where
  "remarshal_string_slice data =
     (case data of
        GoNil \<Rightarrow> Inr None
      | GoSlice vs \<Rightarrow>
          (case string_elems vs of
             None \<Rightarrow> Inl JSONTypeError
           | Some ss \<Rightarrow> Inr (Some ss))
      | _ \<Rightarrow> Inl JSONTypeError)"

definition convertToStringSlice :: "'f goval \<Rightarrow> error + string list option" where
  "convertToStringSlice data =
     (if data = GoNil then Inr (Some [])
      else (case remarshal_string_slice data of
              Inl e \<Rightarrow> Inl (remarshal_error ''failed to unmarshal to []string: '' e)
            | Inr strings \<Rightarrow> Inr strings))"

text \<open>
  \<^verbatim>\<open>
  func convertToBool(data interface{}) (bool, error) {
      if data == nil {
          return false, fmt.Errorf("nil data")
      }
      if b, ok := data.(bool); ok {
          return b, nil
      }
      return false, fmt.Errorf("data is not a bool")
  }
  \<close>
\<close>

definition convertToBool :: "'f goval \<Rightarrow> error + bool" where
  "convertToBool data =
     (if data = GoNil then Inl (Errorf ''nil data'')
      else (case data of
              GoBool b \<Rightarrow> Inr b
            | _ \<Rightarrow> Inl (Errorf ''data is not a bool'')))"

text \<open>
  \<open>json.Marshal\<close> of a decoded value followed by \<open>json.Unmarshal\<close> into a
  \<open>map[string]interface{}\<close>: \<open>null\<close> leaves the map \<open>nil\<close>, an object gives its
  entries, any other document is a type error.
\<close>

definition remarshal_map :: "'f goval \<Rightarrow> lib_error + (string \<times> 'f goval) list option" where
  "remarshal_map data =
     (case data of
        GoNil \<Rightarrow> Inr None
      | GoMap kvs \<Rightarrow> Inr (Some kvs)
      | _ \<Rightarrow> Inl JSONTypeError)"

section \<open>Integer-code client: operations\<close>

text \<open>
  Every operation that reads the envelope builds its path, calls \<open>getJSON\<close> (or
  \<open>postJSON\<close>) with a fresh \<open>APIResponse\<close>, returns the error of the call if there
  is one, compares \<open>Code\<close> with \<open>OK\<close> and then converts \<open>Details\<close>; every call
  of \<open>getJSON\<close> and \<open>postJSON\<close> in the package is followed by that comparison. The
  operations that return the body as plain text or as raw bytes (the topology views and
  \<open>GetRaftSnapshot\<close>) read no envelope. The operations below
  are the ones that the properties name, one of each shape of result; the path of an
  operation is a function of its own so that it can be stated apart.
\<close>

text \<open>
  \<^verbatim>\<open>
  func (c *Client) GetInstance(ctx context.Context, key InstanceKey) (*Instance, error) {
      path := fmt.Sprintf("/api/instance/%s/%d", key.Hostname, key.Port)
      var response APIResponse
      if err := c.getJSON(ctx, path, &response); err != nil {
          return nil, err
      }
      if response.Code != OK {
          return nil, fmt.Errorf("API error: %s", response.Message)
      }
      // The Details field contains the Instance
      if response.Details == nil {
          return nil, fmt.Errorf("no instance data in response")
      }
      // Convert the Details interface{} to Instance
      instance, err := convertToInstance(response.Details)
      if err != nil {
          return nil, fmt.Errorf("failed to convert response: %w", err)
      }
      return instance, nil
  }
  \<close>
  \<open>GetInstanceReplicas\<close> has the body of \<open>SearchInstances\<close> below after its own
  path.
\<close>

definition GetInstance_path :: "InstanceKey \<Rightarrow> string" where
  "GetInstance_path key = ''/api/instance/'' @ Hostname key @ ''/'' @ fmt_Sprintf_d (Port key)"

definition GetInstance :: "(string \<Rightarrow> string \<Rightarrow> 'f transport) \<Rightarrow> ('f goval \<Rightarrow> lib_error + 'i) \<Rightarrow> Client \<Rightarrow> InstanceKey \<Rightarrow> error + 'i" where
  "GetInstance net conv c key =
     (case getJSON net c (GetInstance_path key) of
        Inl err \<Rightarrow> Inl err
      | Inr response \<Rightarrow>
          if Code response \<noteq> OK then Inl (Errorf (''API error: '' @ Message response))
          else if Details response = GoNil then Inl (Errorf ''no instance data in response'')
          else (case convertToInstance conv (Details response) of
                  Inl (Errorf t) \<Rightarrow> Inl (Errorf (''failed to convert response: '' @ t))
                | Inl (Errorf_w t e u) \<Rightarrow> Inl (Errorf_w (''failed to convert response: '' @ t) e u)
                | Inr instance \<Rightarrow> Inr instance))"

definition GetInstanceReplicas_path :: "InstanceKey \<Rightarrow> string" where
  "GetInstanceReplicas_path key =
     ''/api/instance-replicas/'' @ Hostname key @ ''/'' @ fmt_Sprintf_d (Port key)"

definition GetInstanceReplicas :: "(string \<Rightarrow> string \<Rightarrow> 'f transport) \<Rightarrow> ('f goval \<Rightarrow> lib_error + 'i list option) \<Rightarrow> Client \<Rightarrow> InstanceKey \<Rightarrow> error + 'i list option" where
  "GetInstanceReplicas net conv c key =
     (case getJSON net c (GetInstanceReplicas_path key) of
        Inl err \<Rightarrow> Inl err
      | Inr response \<Rightarrow>
          if Code response \<noteq> OK then Inl (Errorf (''API error: '' @ Message response))
          else convertToInstanceSlice conv (Details response))"

text \<open>
  \<^verbatim>\<open>
  func (c *Client) SearchInstances(ctx context.Context, searchString string) ([]Instance, error) {
      path := fmt.Sprintf("/api/search/%s", searchString)
      var response APIResponse
      if err := c.getJSON(ctx, path, &response); err != nil {
          return nil, err
      }
      if response.Code != OK {
          return nil, fmt.Errorf("API error: %s", response.Message)
      }
      return convertToInstanceSlice(response.Details)
  }
  \<close>
\<close>

definition SearchInstances_path :: "string \<Rightarrow> string" where
  "SearchInstances_path searchString = ''/api/search/'' @ searchString"

definition SearchInstances :: "(string \<Rightarrow> string \<Rightarrow> 'f transport) \<Rightarrow> ('f goval \<Rightarrow> lib_error + 'i list option) \<Rightarrow> Client \<Rightarrow> string \<Rightarrow> error + 'i list option" where
  "SearchInstances net conv c searchString =
     (case getJSON net c (SearchInstances_path searchString) of
        Inl err \<Rightarrow> Inl err
      | Inr response \<Rightarrow>
          if Code response \<noteq> OK then Inl (Errorf (''API error: '' @ Message response))
          else convertToInstanceSlice conv (Details response))"

text \<open>
  The loop of \<open>GetClusterPoolInstancesForPool\<close> and of
  \<open>GetHeuristicClusterPoolInstancesForPool\<close>:
  \<^verbatim>\<open>
  keys := make([]InstanceKey, 0, len(strSlice))
  for _, keyStr := range strSlice {
      key, err := ParseInstanceKey(keyStr)
      if err != nil {
          continue
      }
      keys = append(keys, key)
  }
  \<close>
\<close>

fun parse_keys_loop :: "InstanceKey list \<Rightarrow> string list \<Rightarrow> InstanceKey list" where
  "parse_keys_loop keys [] = keys"
| "parse_keys_loop keys (keyStr # rest) =
     (case ParseInstanceKey keyStr of
        Inl err \<Rightarrow> parse_keys_loop keys rest
      | Inr key \<Rightarrow> parse_keys_loop (keys @ [key]) rest)"

definition range_of :: "'a list option \<Rightarrow> 'a list" where
  "range_of sl = (case sl of None \<Rightarrow> [] | Some xs \<Rightarrow> xs)"

definition GetClusterPoolInstancesForPool_path :: "string \<Rightarrow> string \<Rightarrow> string" where
  "GetClusterPoolInstancesForPool_path clusterName pool =
     ''/api/cluster-pool-instances/'' @ clusterName @ ''/'' @ pool"

definition GetClusterPoolInstancesForPool :: "(string \<Rightarrow> string \<Rightarrow> 'f transport) \<Rightarrow> Client \<Rightarrow> string \<Rightarrow> string \<Rightarrow> error + InstanceKey list option" where
  "GetClusterPoolInstancesForPool net c clusterName pool =
     (case getJSON net c (GetClusterPoolInstancesForPool_path clusterName pool) of
        Inl err \<Rightarrow> Inl err
      | Inr response \<Rightarrow>
          if Code response \<noteq> OK then Inl (Errorf (''API error: '' @ Message response))
          else (case convertToStringSlice (Details response) of
                  Inl err \<Rightarrow> Inl err
                | Inr strSlice \<Rightarrow> Inr (Some (parse_keys_loop [] (range_of strSlice)))))"

definition GetHeuristicClusterPoolInstancesForPool_path :: "string \<Rightarrow> string \<Rightarrow> string" where
  "GetHeuristicClusterPoolInstancesForPool_path clusterName pool =
     ''/api/heuristic-cluster-pool-instances/'' @ clusterName @ ''/'' @ pool"

definition GetHeuristicClusterPoolInstancesForPool :: "(string \<Rightarrow> string \<Rightarrow> 'f transport) \<Rightarrow> Client \<Rightarrow> string \<Rightarrow> string \<Rightarrow> error + InstanceKey list option" where
  "GetHeuristicClusterPoolInstancesForPool net c clusterName pool =
     (case getJSON net c (GetHeuristicClusterPoolInstancesForPool_path clusterName pool) of
        Inl err \<Rightarrow> Inl err
      | Inr response \<Rightarrow>
          if Code response \<noteq> OK then Inl (Errorf (''API error: '' @ Message response))
          else (case convertToStringSlice (Details response) of
                  Inl err \<Rightarrow> Inl err
                | Inr strSlice \<Rightarrow> Inr (Some (parse_keys_loop [] (range_of strSlice)))))"

text \<open>
  \<^verbatim>\<open>
  func (c *Client) GetHeuristicClusterPoolLagForPool(ctx context.Context, clusterName, pool string) (int64, error) {
      path := fmt.Sprintf("/api/heuristic-cluster-pool-lag/%s/%s", clusterName, pool)
      var response APIResponse
      if err := c.getJSON(ctx, path, &response); err != nil {
          return 0, err
      }
      if response.Code != OK {
          return 0, fmt.Errorf("API error: %s", response.Message)
      }
      if response.Details == nil {
          return 0, nil
      }
      // Try to convert to int64
      switch v := response.Details.(type) {
      case float64:
          return int64(v), nil
      case int64:
          return v, nil
      case int:
          return int64(v), nil
      default:
          return 0, fmt.Errorf("unexpected type for lag value: %T", response.Details)
      }
  }
  \<close>
  The conversion \<open>int64(v)\<close> of a \<open>float64\<close> is Go's own; it is the parameter
  \<open>int64_of_float64\<close>. An \<open>int\<close> is 64 bits wide, so \<open>int64(v)\<close> of an \<open>int\<close> is
  \<open>v\<close>. The verb \<open>%T\<close> prints the dynamic type.
\<close>

definition fmt_T :: "'f goval \<Rightarrow> string" where
  "fmt_T v =
     (case v of
        GoNil \<Rightarrow> ''<nil>''
      | GoBool b \<Rightarrow> ''bool''
      | GoFloat64 f \<Rightarrow> ''float64''
      | GoInt64 i \<Rightarrow> ''int64''
      | GoInt i \<Rightarrow> ''int''
      | GoString s \<Rightarrow> ''string''
      | GoSlice vs \<Rightarrow> ''[]interface {}''
      | GoMap kvs \<Rightarrow> ''map[string]interface {}'')"

definition GetHeuristicClusterPoolLagForPool_path :: "string \<Rightarrow> string \<Rightarrow> string" where
  "GetHeuristicClusterPoolLagForPool_path clusterName pool =
     ''/api/heuristic-cluster-pool-lag/'' @ clusterName @ ''/'' @ pool"

definition GetHeuristicClusterPoolLagForPool :: "(string \<Rightarrow> string \<Rightarrow> 'f transport) \<Rightarrow> ('f \<Rightarrow> int) \<Rightarrow> Client \<Rightarrow> string \<Rightarrow> string \<Rightarrow> error + int" where
  "GetHeuristicClusterPoolLagForPool net int64_of_float64 c clusterName pool =
     (case getJSON net c (GetHeuristicClusterPoolLagForPool_path clusterName pool) of
        Inl err \<Rightarrow> Inl err
      | Inr response \<Rightarrow>
          if Code response \<noteq> OK then Inl (Errorf (''API error: '' @ Message response))
          else if Details response = GoNil then Inr 0
          else (case Details response of
                  GoFloat64 v \<Rightarrow> Inr (int64_of_float64 v)
                | GoInt64 v \<Rightarrow> Inr v
                | GoInt v \<Rightarrow> Inr v
                | _ \<Rightarrow> Inl (Errorf (''unexpected type for lag value: '' @ fmt_T (Details response)))))"

text \<open>
  The health operations name themselves in the error:
  \<^verbatim>\<open>
  func (c *Client) Health(ctx context.Context, ) error {
      path := "/api/health"
      var response APIResponse
      if err := c.getJSON(ctx, path, &response); err != nil {
          return err
      }
      if response.Code != OK {
          return fmt.Errorf("health check failed: %s", response.Message)
      }
      return nil
  }
  \<close>
  and likewise \<open>LBCheck\<close> (\<open>"LB check failed: %s"\<close>), \<open>Ping\<close> (\<open>"ping failed: %s"\<close>)
  and \<open>LeaderCheck\<close> (\<open>"leader check failed: %s"\<close>). An operation that returns only an
  error returns \<open>Inr ()\<close> for \<open>nil\<close>.
\<close>

definition Health :: "(string \<Rightarrow> string \<Rightarrow> 'f transport) \<Rightarrow> Client \<Rightarrow> error + unit" where
  "Health net c =
     (case getJSON net c ''/api/health'' of
        Inl err \<Rightarrow> Inl err
      | Inr response \<Rightarrow>
          if Code response \<noteq> OK then Inl (Errorf (''health check failed: '' @ Message response))
          else Inr ())"

definition LBCheck :: "(string \<Rightarrow> string \<Rightarrow> 'f transport) \<Rightarrow> Client \<Rightarrow> error + unit" where
  "LBCheck net c =
     (case getJSON net c ''/api/lb-check'' of
        Inl err \<Rightarrow> Inl err
      | Inr response \<Rightarrow>
          if Code response \<noteq> OK then Inl (Errorf (''LB check failed: '' @ Message response))
          else Inr ())"

definition Ping :: "(string \<Rightarrow> string \<Rightarrow> 'f transport) \<Rightarrow> Client \<Rightarrow> error + unit" where
  "Ping net c =
     (case getJSON net c ''/api/_ping'' of
        Inl err \<Rightarrow> Inl err
      | Inr response \<Rightarrow>
          if Code response \<noteq> OK then Inl (Errorf (''ping failed: '' @ Message response))
          else Inr ())"

definition LeaderCheck :: "(string \<Rightarrow> string \<Rightarrow> 'f transport) \<Rightarrow> Client \<Rightarrow> error + unit" where
  "LeaderCheck net c =
     (case getJSON net c ''/api/leader-check'' of
        Inl err \<Rightarrow> Inl err
      | Inr response \<Rightarrow>
          if Code response \<noteq> OK then Inl (Errorf (''leader check failed: '' @ Message response))
          else Inr ())"

definition Reelect :: "(string \<Rightarrow> string \<Rightarrow> 'f transport) \<Rightarrow> Client \<Rightarrow> error + unit" where
  "Reelect net c =
     (case getJSON net c ''/api/reelect'' of
        Inl err \<Rightarrow> Inl err
      | Inr response \<Rightarrow>
          if Code response \<noteq> OK then Inl (Errorf (''API error: '' @ Message response))
          else Inr ())"

text \<open>
  \<^verbatim>\<open>
  func (c *Client) Status(ctx context.Context, ) (map[string]interface{}, error) {
      path := "/api/status"
      var response APIResponse
      if err := c.getJSON(ctx, path, &response); err != nil {
          return nil, err
      }
      if response.Code != OK {
          return nil, fmt.Errorf("API error: %s", response.Message)
      }
      jsonData, err := json.Marshal(response.Details)
      if err != nil {
          return nil, fmt.Errorf("failed to marshal data: %w", err)
      }
      var status map[string]interface{}
      if err := json.Unmarshal(jsonData, &status); err != nil {
          return nil, fmt.Errorf("failed to unmarshal status: %w", err)
      }
      return status, nil
  }
  \<close>
  \<open>GetRaftStatus\<close> is the same but for the path, the text \<open>"failed to unmarshal raft
  status: %w"\<close> and one more statement before the conversion:
  \<^verbatim>\<open>
      if response.Details == nil {
          return map[string]interface{}{}, nil
      }
  \<close>
\<close>

definition Status :: "(string \<Rightarrow> string \<Rightarrow> 'f transport) \<Rightarrow> Client \<Rightarrow> error + (string \<times> 'f goval) list option" where
  "Status net c =
     (case getJSON net c ''/api/status'' of
        Inl err \<Rightarrow> Inl err
      | Inr response \<Rightarrow>
          if Code response \<noteq> OK then Inl (Errorf (''API error: '' @ Message response))
          else (case remarshal_map (Details response) of
                  Inl e \<Rightarrow> Inl (remarshal_error ''failed to unmarshal status: '' e)
                | Inr status \<Rightarrow> Inr status))"

definition GetRaftStatus :: "(string \<Rightarrow> string \<Rightarrow> 'f transport) \<Rightarrow> Client \<Rightarrow> error + (string \<times> 'f goval) list option" where
  "GetRaftStatus net c =
     (case getJSON net c ''/api/raft-status'' of
        Inl err \<Rightarrow> Inl err
      | Inr response \<Rightarrow>
          if Code response \<noteq> OK then Inl (Errorf (''API error: '' @ Message response))
          else if Details response = GoNil then Inr (Some [])
          else (case remarshal_map (Details response) of
                  Inl e \<Rightarrow> Inl (remarshal_error ''failed to unmarshal raft status: '' e)
                | Inr status \<Rightarrow> Inr status))"

text \<open>
  \<^verbatim>\<open>
  func (c *Client) GetRaftLeader(ctx context.Context, ) (string, error) {
      path := "/api/raft-leader"
      var response APIResponse
      if err := c.getJSON(ctx, path, &response); err != nil {
          return "", err
      }
      if response.Code != OK {
          return "", fmt.Errorf("API error: %s", response.Message)
      }
      if response.Details == nil {
          return "", nil
      }
      if str, ok := response.Details.(string); ok {
          return str, nil
      }
      return fmt.Sprint(response.Details), nil
  }
  \<close>
  \<open>GetInstanceSpecificTagValue\<close> has the same body after its own path. The default
  formatting of a value by \<open>fmt.Sprint\<close> is the parameter \<open>fmt_Sprint\<close>.
\<close>

definition GetRaftLeader :: "(string \<Rightarrow> string \<Rightarrow> 'f transport) \<Rightarrow> ('f goval \<Rightarrow> string) \<Rightarrow> Client \<Rightarrow> error + string" where
  "GetRaftLeader net fmt_Sprint c =
     (case getJSON net c ''/api/raft-leader'' of
        Inl err \<Rightarrow> Inl err
      | Inr response \<Rightarrow>
          if Code response \<noteq> OK then Inl (Errorf (''API error: '' @ Message response))
          else if Details response = GoNil then Inr []
          else (case Details response of
                  GoString str \<Rightarrow> Inr str
                | _ \<Rightarrow> Inr (fmt_Sprint (Details response))))"

definition GetInstanceSpecificTagValue_path :: "InstanceKey \<Rightarrow> string \<Rightarrow> string" where
  "GetInstanceSpecificTagValue_path instanceKey tagName =
     ''/api/tag-value/'' @ Hostname instanceKey @ ''/'' @ fmt_Sprintf_d (Port instanceKey)
       @ ''/'' @ tagName"

definition GetInstanceSpecificTagValue :: "(string \<Rightarrow> string \<Rightarrow> 'f transport) \<Rightarrow> ('f goval \<Rightarrow> string) \<Rightarrow> Client \<Rightarrow> InstanceKey \<Rightarrow> string \<Rightarrow> error + string" where
  "GetInstanceSpecificTagValue net fmt_Sprint c instanceKey tagName =
     (case getJSON net c (GetInstanceSpecificTagValue_path instanceKey tagName) of
        Inl err \<Rightarrow> Inl err
      | Inr response \<Rightarrow>
          if Code response \<noteq> OK then Inl (Errorf (''API error: '' @ Message response))
          else if Details response = GoNil then Inr []
          else (case Details response of
                  GoString str \<Rightarrow> Inr str
                | _ \<Rightarrow> Inr (fmt_Sprint (Details response))))"

text \<open>
  \<^verbatim>\<open>
  func (c *Client) CheckGlobalRecoveries(ctx context.Context, ) (bool, error) {
      path := "/api/check-global-recoveries"
      var response APIResponse
      if err := c.getJSON(ctx, path, &response); err != nil {
          return false, err
      }
      if response.Code != OK {
          return false, fmt.Errorf("API error: %s", response.Message)
      }
      return convertToBool(response.Details)
  }
  \<close>
\<close>

definition CheckGlobalRecoveries :: "(string \<Rightarrow> string \<Rightarrow> 'f transport) \<Rightarrow> Client \<Rightarrow> error + bool" where
  "CheckGlobalRecoveries net c =
     (case getJSON net c ''/api/check-global-recoveries'' of
        Inl err \<Rightarrow> Inl err
      | Inr response \<Rightarrow>
          if Code response \<noteq> OK then Inl (Errorf (''API error: '' @ Message response))
          else convertToBool (Details response))"


section \<open>String-code client: envelope and transport\<close>

text \<open>
  The second client keeps the code of the envelope as a string:
  \<^verbatim>\<open>
  type APIResponse struct {
      Code    string      `json:"Code"`
      Message string      `json:"Message"`
      Details interface{} `json:"Details"`
  }
  \<close>
  Names of this client that the integer-code client also uses carry the prefix \<open>go_\<close>,
  after the directory \<open>go/client\<close> of its package.
\<close>

record 'f go_APIResponse =
  go_Code :: string
  go_Message :: string
  go_Details :: "'f goval"

definition go_zero_APIResponse :: "'f go_APIResponse" where
  "go_zero_APIResponse = \<lparr>go_Code = [], go_Message = [], go_Details = GoNil\<rparr>"

fun go_unmarshal_members :: "(string \<times> 'f json) list \<Rightarrow> 'f go_APIResponse \<Rightarrow> 'f go_APIResponse option" where
  "go_unmarshal_members [] r = Some r"
| "go_unmarshal_members (m # ms) r =
     (if fieldMatch (fst m) ''Code'' then
        (case snd m of
           JNull \<Rightarrow> go_unmarshal_members ms r
         | JString s \<Rightarrow> go_unmarshal_members ms (r\<lparr>go_Code := s\<rparr>)
         | _ \<Rightarrow> None)
      else if fieldMatch (fst m) ''Message'' then
        (case snd m of
           JNull \<Rightarrow> go_unmarshal_members ms r
         | JString s \<Rightarrow> go_unmarshal_members ms (r\<lparr>go_Message := s\<rparr>)
         | _ \<Rightarrow> None)
      else if fieldMatch (fst m) ''Details'' then
        (case valueInterface (snd m) of
           None \<Rightarrow> None
         | Some v \<Rightarrow> go_unmarshal_members ms (r\<lparr>go_Details := v\<rparr>))
      else go_unmarshal_members ms r)"

definition go_unmarshal_APIResponse :: "'f json \<Rightarrow> 'f go_APIResponse \<Rightarrow> 'f go_APIResponse option" where
  "go_unmarshal_APIResponse doc r =
     (case doc of
        JNull \<Rightarrow> Some r
      | JObject ms \<Rightarrow> go_unmarshal_members ms r
      | _ \<Rightarrow> None)"

record go_Client =
  go_baseURL :: string
  go_username :: string
  go_password :: string
  go_headers :: "(string \<times> string) list"
  go_leader :: string
  go_endpoints :: "string list"

record Config =
  BaseURL :: string
  Endpoints :: "string list"
  Username :: string
  Password :: string
  Headers :: "(string \<times> string) list"
  Timeout :: int
  InsecureSkipVerify :: bool

definition strings_HasPrefix :: "string \<Rightarrow> string \<Rightarrow> bool" where
  "strings_HasPrefix s pre \<longleftrightarrow> length pre \<le> length s \<and> take (length pre) s = pre"

definition strings_TrimPrefix :: "string \<Rightarrow> string \<Rightarrow> string" where
  "strings_TrimPrefix s pre = (if strings_HasPrefix s pre then drop (length pre) s else s)"

text \<open>
  \<open>doRequest\<close> of this client sends the request to the pinned leader:
  \<^verbatim>\<open>
  url := c.leader + "/" + strings.TrimPrefix(path, "/")
  \<close>
  The operations modelled here send no body.
\<close>

definition go_doRequest :: "(string \<Rightarrow> string \<Rightarrow> 'f transport) \<Rightarrow> go_Client \<Rightarrow> string \<Rightarrow> string \<Rightarrow> error + 'f http_response" where
  "go_doRequest net c method path =
     (let url = go_leader c @ ''/'' @ strings_TrimPrefix path ''/''
      in case net method url of
           NewRequestFailed \<Rightarrow> Inl (Errorf_w ''failed to create request: '' RequestError [])
         | DoFailed \<Rightarrow> Inl (Errorf_w ''request failed: '' NetError [])
         | Response resp \<Rightarrow> Inr resp)"

text \<open>
  \<^verbatim>\<open>
  func (c *Client) parseAPIResponse(resp *http.Response, result interface{}) (*APIResponse, error) {
      defer resp.Body.Close()
      body, err := io.ReadAll(resp.Body)
      if err != nil {
          return nil, fmt.Errorf("failed to read response body: %w", err)
      }
      var apiResp APIResponse
      if err := json.Unmarshal(body, &apiResp); err != nil {
          return nil, fmt.Errorf("failed to unmarshal API response: %w", err)
      }
      if apiResp.Code == "ERROR" {
          return &apiResp, fmt.Errorf("API error: %s", apiResp.Message)
      }
      if result != nil && apiResp.Details != nil {
          detailsBytes, err := json.Marshal(apiResp.Details)
          if err != nil {
              return &apiResp, fmt.Errorf("failed to marshal details: %w", err)
          }
          if err := json.Unmarshal(detailsBytes, result); err != nil {
              return &apiResp, fmt.Errorf("failed to unmarshal details: %w", err)
          }
      }
      return &apiResp, nil
  }
  \<close>
  The argument \<open>result\<close> is \<open>nil\<close> (\<open>None\<close>) or the address of a variable of the
  caller; then it is given as the conversion into the type of that variable
  (\<open>json.Marshal\<close> followed by \<open>json.Unmarshal\<close>), and \<open>target\<close> is the value of the
  variable before the call. The function returns the pointer to the envelope, the error
  and the value of the caller's variable after the call.
\<close>

definition go_parseAPIResponse :: "'f http_response \<Rightarrow> ('f goval \<Rightarrow> lib_error + 'a) option \<Rightarrow> 'a \<Rightarrow> 'f go_APIResponse option \<times> error option \<times> 'a" where
  "go_parseAPIResponse resp result target =
     (case BodyJSON resp of
        None \<Rightarrow> (None, Some (Errorf_w ''failed to unmarshal API response: '' JSONSyntaxError []), target)
      | Some doc \<Rightarrow>
          (case go_unmarshal_APIResponse doc go_zero_APIResponse of
             None \<Rightarrow> (None, Some (Errorf_w ''failed to unmarshal API response: '' JSONTypeError []), target)
           | Some apiResp \<Rightarrow>
               if go_Code apiResp = ''ERROR'' then
                 (Some apiResp, Some (Errorf (''API error: '' @ go_Message apiResp)), target)
               else
                 (case result of
                    None \<Rightarrow> (Some apiResp, None, target)
                  | Some conv \<Rightarrow>
                      if go_Details apiResp \<noteq> GoNil then
                        (case conv (go_Details apiResp) of
                           Inl e \<Rightarrow>
                             (Some apiResp,
                              Some (if e = JSONMarshalError
                                    then Errorf_w ''failed to marshal details: '' e []
                                    else Errorf_w ''failed to unmarshal details: '' e []),
                              target)
                         | Inr v \<Rightarrow> (Some apiResp, None, v))
                      else (Some apiResp, None, target))))"

section \<open>String-code client: paths and operations\<close>

text \<open>
  \<open>url.QueryEscape\<close>: letters, digits and \<open>- _ . ~\<close> stay, a space becomes \<open>+\<close>,
  every other byte becomes \<open>%\<close> and its two upper-case hexadecimal digits.
\<close>

definition is_alnum :: "char \<Rightarrow> bool" where
  "is_alnum c \<longleftrightarrow>
     (let b = (of_char c :: nat)
      in (48 \<le> b \<and> b \<le> 57) \<or> (65 \<le> b \<and> b \<le> 90) \<or> (97 \<le> b \<and> b \<le> 122))"

definition is_unreserved :: "char \<Rightarrow> bool" where
  "is_unreserved c \<longleftrightarrow>
     is_alnum c \<or> c = CHR ''-'' \<or> c = CHR ''_'' \<or> c = CHR ''.'' \<or> c = CHR ''~''"

definition upperhex :: "nat \<Rightarrow> char" where
  "upperhex d = ''0123456789ABCDEF'' ! d"

definition escape_byte :: "char \<Rightarrow> string" where
  "escape_byte c =
     (if c = CHR '' '' then ''+''
      else if is_unreserved c then [c]
      else [CHR ''%'', upperhex ((of_char c :: nat) div 16), upperhex ((of_char c :: nat) mod 16)])"

definition url_QueryEscape :: "string \<Rightarrow> string" where
  "url_QueryEscape s = concat (map escape_byte s)"

text \<open>
  \<^verbatim>\<open>
  func (c *Client) Search(ctx context.Context, searchString string) ([]inst.Instance, error) {
      path := fmt.Sprintf("/search/%s", url.QueryEscape(searchString))
  \<close>
  \<^verbatim>\<open>
  func (c *Client) BeginDowntime(ctx context.Context, instanceKey inst.InstanceKey, owner, reason string, duration time.Duration) error {
      durationStr := ""
      if duration > 0 {
          durationStr = fmt.Sprintf("/%ds", int(duration.Seconds()))
      }
      path := fmt.Sprintf("/begin-downtime/%s/%d/%s/%s%s",
          instanceKey.Hostname, instanceKey.Port, url.QueryEscape(owner), url.QueryEscape(reason), durationStr)
  \<close>
  The duration is a number of nanoseconds; \<open>duration.Seconds()\<close> is a floating-point
  computation, and \<open>seconds\<close> stands for the value of \<open>int(duration.Seconds())\<close>.
\<close>

definition go_Search_path :: "string \<Rightarrow> string" where
  "go_Search_path searchString = ''/search/'' @ url_QueryEscape searchString"

definition go_BeginDowntime_path :: "InstanceKey \<Rightarrow> string \<Rightarrow> string \<Rightarrow> int \<Rightarrow> int \<Rightarrow> string" where
  "go_BeginDowntime_path instanceKey owner reason duration seconds =
     (let durationStr = (if duration > 0 then ''/'' @ fmt_Sprintf_d seconds @ ''s'' else [])
      in ''/begin-downtime/'' @ Hostname instanceKey @ ''/'' @ fmt_Sprintf_d (Port instanceKey)
           @ ''/'' @ url_QueryEscape owner @ ''/'' @ url_QueryEscape reason @ durationStr)"

text \<open>
  A path is well formed when it starts with a slash and each of its segments is made of
  unreserved characters, \<open>+\<close>, and \<open>%\<close> followed by two hexadecimal digits.
\<close>

definition is_hex :: "char \<Rightarrow> bool" where
  "is_hex c \<longleftrightarrow>
     (let b = (of_char c :: nat)
      in (48 \<le> b \<and> b \<le> 57) \<or> (65 \<le> b \<and> b \<le> 70) \<or> (97 \<le> b \<and> b \<le> 102))"

fun segment_ok :: "string \<Rightarrow> bool" where
  "segment_ok [] = True"
| "segment_ok (c # cs) =
     (if c = CHR ''%'' then
        (case cs of
           h1 # h2 # rest \<Rightarrow> is_hex h1 \<and> is_hex h2 \<and> segment_ok rest
         | _ \<Rightarrow> False)
      else (is_unreserved c \<or> c = CHR ''+'') \<and> segment_ok cs)"

definition path_wellformed :: "string \<Rightarrow> bool" where
  "path_wellformed p \<longleftrightarrow>
     (case p of
        [] \<Rightarrow> False
      | c # cs \<Rightarrow> c = CHR ''/'' \<and> list_all segment_ok (strings_Split cs (CHR ''/'')))"



text \<open>
  \<^verbatim>\<open>
  func (c *Client) GetHeuristicClusterPoolInstances(ctx context.Context, clusterName, pool string) ([]inst.Instance, error) {
      var path string
      if pool != "" {
          path = fmt.Sprintf("/heuristic-cluster-pool-instances/%s/%s",
              url.QueryEscape(clusterName), url.QueryEscape(pool))
      } else {
          path = fmt.Sprintf("/heuristic-cluster-pool-instances/%s", url.QueryEscape(clusterName))
      }
      resp, err := c.doRequest(ctx, "GET", path, nil)
      if err != nil {
          return nil, err
      }
      var instances []inst.Instance
      _, err = c.parseAPIResponse(resp, &instances)
      if err != nil {
          return nil, err
      }
      return instances, nil
  }
  \<close>
\<close>

definition go_GetHeuristicClusterPoolInstances_path :: "string \<Rightarrow> string \<Rightarrow> string" where
  "go_GetHeuristicClusterPoolInstances_path clusterName pool =
     (if pool \<noteq> [] then
        ''/heuristic-cluster-pool-instances/'' @ url_QueryEscape clusterName @ ''/'' @ url_QueryEscape pool
      else ''/heuristic-cluster-pool-instances/'' @ url_QueryEscape clusterName)"

definition go_GetHeuristicClusterPoolInstances :: "(string \<Rightarrow> string \<Rightarrow> 'f transport) \<Rightarrow> ('f goval \<Rightarrow> lib_error + 'i list option) \<Rightarrow> go_Client \<Rightarrow> string \<Rightarrow> string \<Rightarrow> error + 'i list option" where
  "go_GetHeuristicClusterPoolInstances net conv c clusterName pool =
     (case go_doRequest net c ''GET'' (go_GetHeuristicClusterPoolInstances_path clusterName pool) of
        Inl err \<Rightarrow> Inl err
      | Inr resp \<Rightarrow>
          (case go_parseAPIResponse resp (Some conv) None of
             (_, Some err, _) \<Rightarrow> Inl err
           | (_, None, instances) \<Rightarrow> Inr instances))"

section \<open>String-code client: leader resolution\<close>

text \<open>
  Leader resolution sends several requests one after another, so here the environment is
  a state \<open>'w\<close> and \<open>http\<close> takes the URL of a \<open>GET\<close> request and the state to the
  outcome and the next state. The outcome is the status code of the response, or
  \<open>None\<close> when the request cannot be created or sending it fails (which includes the
  expiry of the five seconds that \<open>detectLeader\<close> allows for all its probes).
  \<^verbatim>\<open>
  func (c *Client) isLeader(ctx context.Context, endpoint string) bool {
      req, err := http.NewRequestWithContext(ctx, "GET", endpoint+"/leader-check", nil)
      if err != nil {
          return false
      }
      c.setAuth(req)
      resp, err := c.httpClient.Do(req)
      if err != nil {
          return false
      }
      defer resp.Body.Close()
      return resp.StatusCode == http.StatusOK
  }
  \<close>
  \<open>hasRoutedLeader\<close> differs only in the suffix \<open>/routed-leader-check\<close>.
\<close>

definition isLeader :: "(string \<Rightarrow> 'w \<Rightarrow> int option \<times> 'w) \<Rightarrow> go_Client \<Rightarrow> string \<Rightarrow> 'w \<Rightarrow> bool \<times> 'w" where
  "isLeader http c endpoint w =
     (case http (endpoint @ ''/leader-check'') w of
        (None, w') \<Rightarrow> (False, w')
      | (Some status, w') \<Rightarrow> (status = 200, w'))"

definition hasRoutedLeader :: "(string \<Rightarrow> 'w \<Rightarrow> int option \<times> 'w) \<Rightarrow> go_Client \<Rightarrow> string \<Rightarrow> 'w \<Rightarrow> bool \<times> 'w" where
  "hasRoutedLeader http c endpoint w =
     (case http (endpoint @ ''/routed-leader-check'') w of
        (None, w') \<Rightarrow> (False, w')
      | (Some status, w') \<Rightarrow> (status = 200, w'))"

text \<open>
  \<^verbatim>\<open>
  func (c *Client) detectLeader() error {
      ctx, cancel := context.WithTimeout(context.Background(), 5*time.Second)
      defer cancel()
      for _, endpoint := range c.endpoints {
          if c.isLeader(ctx, endpoint) {
              c.leader = endpoint
              return nil
          }
      }
      // If no direct leader found, try routed leader check
      for _, endpoint := range c.endpoints {
          if c.hasRoutedLeader(ctx, endpoint) {
              c.leader = endpoint
              return nil
          }
      }
      return fmt.Errorf("no leader found among endpoints")
  }
  \<close>
  Each of the two loops is \<open>probe_loop\<close> with its check: it returns the first endpoint
  for which the check answers \<open>true\<close>, or \<open>None\<close> when the range is exhausted.
  \<open>detectLeader\<close> returns the client with the leader set, or the error and the client
  as it was.
\<close>

fun probe_loop :: "(string \<Rightarrow> 'w \<Rightarrow> bool \<times> 'w) \<Rightarrow> string list \<Rightarrow> 'w \<Rightarrow> string option \<times> 'w" where
  "probe_loop check [] w = (None, w)"
| "probe_loop check (endpoint # rest) w =
     (case check endpoint w of
        (True, w') \<Rightarrow> (Some endpoint, w')
      | (False, w') \<Rightarrow> probe_loop check rest w')"

definition detectLeader :: "(string \<Rightarrow> 'w \<Rightarrow> int option \<times> 'w) \<Rightarrow> go_Client \<Rightarrow> 'w \<Rightarrow> (error + go_Client) \<times> 'w" where
  "detectLeader http c w =
     (case probe_loop (isLeader http c) (go_endpoints c) w of
        (Some endpoint, w') \<Rightarrow> (Inr (c\<lparr>go_leader := endpoint\<rparr>), w')
      | (None, w') \<Rightarrow>
          (case probe_loop (hasRoutedLeader http c) (go_endpoints c) w' of
             (Some endpoint, w'') \<Rightarrow> (Inr (c\<lparr>go_leader := endpoint\<rparr>), w'')
           | (None, w'') \<Rightarrow> (Inl (Errorf ''no leader found among endpoints''), w'')))"

text \<open>
  \<^verbatim>\<open>
  func NewClient(config *Config) (*Client, error) {
      if config == nil {
          return nil, fmt.Errorf("config cannot be nil")
      }
      ...
      client := &Client{
          baseURL:    normalizeURL(config.BaseURL),
          httpClient: httpClient,
          username:   config.Username,
          password:   config.Password,
          headers:    config.Headers,
          endpoints:  normalizeEndpoints(config.Endpoints),
      }
      // If multiple endpoints provided, detect leader
      if len(client.endpoints) > 1 {
          if err := client.detectLeader(); err != nil {
              return nil, fmt.Errorf("failed to detect leader: %w", err)
          }
      } else if len(client.endpoints) == 1 {
          client.leader = client.endpoints[0]
      } else {
          client.leader = client.baseURL
      }
      return client, nil
  }
  \<close>
  The HTTP client that \<open>NewClient\<close> configures from \<open>Timeout\<close> and
  \<open>InsecureSkipVerify\<close> is part of the environment \<open>http\<close>.
\<close>

definition wrap_error :: "string \<Rightarrow> error \<Rightarrow> error" where
  "wrap_error pre err =
     (case err of
        Errorf t \<Rightarrow> Errorf (pre @ t)
      | Errorf_w t e u \<Rightarrow> Errorf_w (pre @ t) e u)"

definition go_NewClient :: "(string \<Rightarrow> 'w \<Rightarrow> int option \<times> 'w) \<Rightarrow> Config option \<Rightarrow> 'w \<Rightarrow> (error + go_Client) \<times> 'w" where
  "go_NewClient http config w =
     (case config of
        None \<Rightarrow> (Inl (Errorf ''config cannot be nil''), w)
      | Some cfg \<Rightarrow>
          (let client = \<lparr>go_baseURL = normalizeURL (BaseURL cfg),
                         go_username = Username cfg,
                         go_password = Password cfg,
                         go_headers = Headers cfg,
                         go_leader = [],
                         go_endpoints = normalizeEndpoints (Endpoints cfg)\<rparr>
           in if length (go_endpoints client) > 1 then
                (case detectLeader http client w of
                   (Inl err, w') \<Rightarrow> (Inl (wrap_error ''failed to detect leader: '' err), w')
                 | (Inr client', w') \<Rightarrow> (Inr client', w'))
              else if length (go_endpoints client) = 1 then
                (Inr (client\<lparr>go_leader := go_endpoints client ! 0\<rparr>), w)
              else (Inr (client\<lparr>go_leader := go_baseURL client\<rparr>), w)))"

text \<open>
  The environment that the properties of leader resolution use keeps the list of the
  URLs requested so far. The answer to a request may depend on that list, so any
  deterministic behaviour of the servers is an \<open>answer\<close>.
\<close>

definition recording :: "(string list \<Rightarrow> string \<Rightarrow> int option) \<Rightarrow> string \<Rightarrow> string list \<Rightarrow> int option \<times> string list" where
  "recording answer url log = (answer log url, log @ [url])"


section \<open>Example environments\<close>

text \<open>
  The concrete inputs of the examples: a client, a server that answers every request with
  the same response, and responses with status 200 whose body is a given envelope. The
  stand-in for \<open>float64\<close> in the examples is \<^typ>\<open>int\<close>.
\<close>

definition example_client :: Client where
  "example_client = \<lparr>baseURL = ''http://localhost:3000'', username = [], password = [], urlPrefix = []\<rparr>"

definition example_key :: InstanceKey where
  "example_key = \<lparr>Hostname = ''db1'', Port = 3306\<rparr>"

definition quoted :: "string \<Rightarrow> string" where
  "quoted s = CHR 0x22 # s @ [CHR 0x22]"

definition answering :: "'f http_response \<Rightarrow> string \<Rightarrow> string \<Rightarrow> 'f transport" where
  "answering resp method url = Response resp"



text \<open>The body \<open>{"Message":"down"}\<close>, an envelope without a code.\<close>

definition codeless_doc :: "int json" where
  "codeless_doc = JObject [(''Message'', JString ''down'')]"

definition codeless_response :: "int http_response" where
  "codeless_response =
     \<lparr>StatusCode = 200,
      Body = ''{'' @ quoted ''Message'' @ '':'' @ quoted ''down'' @ ''}'',
      BodyJSON = Some codeless_doc\<rparr>"

text \<open>The body \<open>{"Code":1,"Message":"ok","Details":d}\<close> for a document \<open>d\<close> with text \<open>t\<close>.\<close>

definition ok_doc :: "int json \<Rightarrow> int json" where
  "ok_doc d = JObject [(''Code'', JNumber ''1'' (Some 1)), (''Message'', JString ''ok''),
                       (''Details'', d)]"

definition ok_response :: "string \<Rightarrow> int json \<Rightarrow> int http_response" where
  "ok_response t d =
     \<lparr>StatusCode = 200,
      Body = ''{'' @ quoted ''Code'' @ '':1,'' @ quoted ''Message'' @ '':'' @ quoted ''ok'' @ '',''
               @ quoted ''Details'' @ '':'' @ t @ ''}'',
      BodyJSON = Some (ok_doc d)\<rparr>"




text \<open>Conversions into a struct that fail and that succeed, for the examples.\<close>

definition no_conv :: "int goval \<Rightarrow> lib_error + unit" where
  "no_conv data = Inl JSONTypeError"

definition no_conv_slice :: "int goval \<Rightarrow> lib_error + unit list option" where
  "no_conv_slice data = Inl JSONTypeError"

definition example_Sprint :: "int goval \<Rightarrow> string" where
  "example_Sprint v = (case v of GoBool True \<Rightarrow> ''true'' | GoBool False \<Rightarrow> ''false'' | _ \<Rightarrow> ''?'')"

definition example_int64 :: "int \<Rightarrow> int" where
  "example_int64 v = v"

section \<open>Predicates on envelopes\<close>

text \<open>
  An envelope omits the code when it is an object none of whose keys matches the field
  \<open>Code\<close>; it carries the success code explicitly when one of its members matches
  \<open>Code\<close> and is a number whose literal reads as \<open>OK\<close>.
\<close>

definition omits_Code :: "'f json \<Rightarrow> bool" where
  "omits_Code doc =
     (case doc of
        JObject ms \<Rightarrow> list_all (\<lambda>m. \<not> fieldMatch (fst m) ''Code'') ms
      | _ \<Rightarrow> False)"

definition is_OK_member :: "string \<times> 'f json \<Rightarrow> bool" where
  "is_OK_member m =
     (fieldMatch (fst m) ''Code'' \<and>
      (case snd m of JNumber lit f \<Rightarrow> strconv_ParseInt lit = Some OK | _ \<Rightarrow> False))"

definition carries_OK :: "'f json \<Rightarrow> bool" where
  "carries_OK doc = (case doc of JObject ms \<Rightarrow> list_ex is_OK_member ms | _ \<Rightarrow> False)"

text \<open>What the loop over the pool members keeps of one entry.\<close>

definition parsed_key :: "string \<Rightarrow> InstanceKey option" where
  "parsed_key keyStr = (case ParseInstanceKey keyStr of Inl err \<Rightarrow> None | Inr key \<Rightarrow> Some key)"

text \<open>The body \<open>{"Code":"OK","Message":"ok","Details":null}\<close>, for the string-code client.\<close>

definition go_ok_null_doc :: "int json" where
  "go_ok_null_doc = JObject [(''Code'', JString ''OK''), (''Message'', JString ''ok''), (''Details'', JNull)]"

definition go_ok_null_response :: "int http_response" where
  "go_ok_null_response =
     \<lparr>StatusCode = 200,
      Body = ''{'' @ quoted ''Code'' @ '':'' @ quoted ''OK'' @ '','' @ quoted ''Message'' @ '':''
               @ quoted ''ok'' @ '','' @ quoted ''Details'' @ '':null}'',
      BodyJSON = Some go_ok_null_doc\<rparr>"

definition go_ok_null_envelope :: "int go_APIResponse" where
  "go_ok_null_envelope = \<lparr>go_Code = ''OK'', go_Message = ''ok'', go_Details = GoNil\<rparr>"

definition example_go_client :: go_Client where
  "example_go_client =
     \<lparr>go_baseURL = ''http://localhost:3000/api'', go_username = [], go_password = [],
      go_headers = [], go_leader = ''http://localhost:3000/api'', go_endpoints = []\<rparr>"

section \<open>Predicates on leader probes\<close>

text \<open>
  The URLs of the two probes of an endpoint, and what it means that the \<open>i\<close>-th
  endpoint answers a probe with status 200 at the moment it is asked: the direct probe of
  endpoint \<open>i\<close> comes after the direct probes of the endpoints before it, the routed
  probe of endpoint \<open>i\<close> after the direct probes of all endpoints and the routed probes
  of the endpoints before it.
\<close>

definition leader_url :: "string \<Rightarrow> string" where
  "leader_url endpoint = endpoint @ ''/leader-check''"

definition routed_url :: "string \<Rightarrow> string" where
  "routed_url endpoint = endpoint @ ''/routed-leader-check''"

definition direct_yes :: "(string list \<Rightarrow> string \<Rightarrow> int option) \<Rightarrow> string list \<Rightarrow> string list \<Rightarrow> nat \<Rightarrow> bool" where
  "direct_yes answer log es i \<longleftrightarrow>
     answer (log @ map leader_url (take i es)) (leader_url (es ! i)) = Some 200"

definition routed_yes :: "(string list \<Rightarrow> string \<Rightarrow> int option) \<Rightarrow> string list \<Rightarrow> string list \<Rightarrow> nat \<Rightarrow> bool" where
  "routed_yes answer log es i \<longleftrightarrow>
     answer (log @ map leader_url es @ map routed_url (take i es)) (routed_url (es ! i)) = Some 200"

text \<open>
  Example servers: the node \<open>b\<close> answers the direct probe with 200 and everything else is
  answered with 503; only the node \<open>a\<close> answers the routed probe with 200; no request is
  ever answered.
\<close>

definition example_config :: "string list \<Rightarrow> Config" where
  "example_config eps =
     \<lparr>BaseURL = ''http://base:3000/'', Endpoints = eps, Username = [], Password = [],
      Headers = [], Timeout = 0, InsecureSkipVerify = False\<rparr>"

definition b_is_leader :: "string list \<Rightarrow> string \<Rightarrow> int option" where
  "b_is_leader log url = (if url = ''http://b/api/leader-check'' then Some 200 else Some 503)"

definition a_routes :: "string list \<Rightarrow> string \<Rightarrow> int option" where
  "a_routes log url = (if url = ''http://a/api/routed-leader-check'' then Some 200 else Some 503)"

definition unreachable :: "string list \<Rightarrow> string \<Rightarrow> int option" where
  "unreachable log url = None"


section \<open>Properties of instance keys\<close>

lemma Split_no_sep: "sep \<notin> set s \<Longrightarrow> strings_Split s sep = [s]"
  by (induction s) auto

lemma Split_append: "sep \<notin> set a \<Longrightarrow> strings_Split (a @ sep # b) sep = a # strings_Split b sep"
  by (induction a) auto

lemma Split_length: "length (strings_Split s sep) = Suc (count_list s sep)"
  by (induction s) (auto split: list.splits)

text \<open>A string that does not have exactly one colon is rejected.\<close>

lemma ParseInstanceKey_colons:
  assumes "count_list s (CHR '':'') \<noteq> 1"
  shows "ParseInstanceKey s = Inl (Errorf (''invalid instance key format: '' @ s))"
proof -
  have "length (strings_Split s (CHR '':'')) \<noteq> 2"
    using assms by (simp add: Split_length)
  then show ?thesis
    by (auto simp: ParseInstanceKey_def split: list.splits)
qed

lemma digit_char_props: "d < 10 \<Longrightarrow> is_digit (digit_char d) \<and> digit_val (digit_char d) = d"
proof -
  assume "d < 10"
  then have "d = 0 \<or> d = 1 \<or> d = 2 \<or> d = 3 \<or> d = 4 \<or> d = 5 \<or> d = 6 \<or> d = 7 \<or> d = 8 \<or> d = 9"
    by arith
  then show ?thesis by (auto simp: digit_char_def is_digit_def digit_val_def)
qed

lemma digits_val_snoc: "digits_val (ds @ [c]) = 10 * digits_val ds + digit_val c"
  by (simp add: digits_val_def)

lemma fmt_digits_props:
  "fmt_digits n \<noteq> [] \<and> list_all is_digit (fmt_digits n) \<and> digits_val (fmt_digits n) = n"
proof (induction n rule: fmt_digits.induct)
  case (1 n)
  show ?case
  proof (cases "n < 10")
    case True
    then show ?thesis
      using digit_char_props [of n] by (simp add: fmt_digits.simps [of n] digits_val_def)
  next
    case False
    have m: "n mod 10 < 10" by simp
    from False 1 have ih: "fmt_digits (n div 10) \<noteq> []" "list_all is_digit (fmt_digits (n div 10))"
      "digits_val (fmt_digits (n div 10)) = n div 10" by simp_all
    from False have f: "fmt_digits n = fmt_digits (n div 10) @ [digit_char (n mod 10)]"
      by (simp add: fmt_digits.simps [of n])
    show ?thesis
      using ih digit_char_props [OF m] by (simp add: f digits_val_snoc)
  qed
qed

lemma is_digit_plain:
  "is_digit c \<Longrightarrow> c \<noteq> CHR '':'' \<and> c \<noteq> CHR ''+'' \<and> c \<noteq> CHR ''-'' \<and> c \<noteq> CHR 0x0A"
  by (auto simp: is_digit_def)

lemma space_width_ascii:
  assumes "(of_char c :: nat) < 128" and "\<not> (9 \<le> (of_char c :: nat) \<and> (of_char c :: nat) \<le> 13)"
    and "(of_char c :: nat) \<noteq> 32"
  shows "space_width (c # cs) = 0"
  using assms by (simp add: space_width_def split: list.splits)

lemma SkipSpace_digit_or_minus:
  assumes "is_digit c \<or> c = CHR ''-''"
  shows "SkipSpace (c # cs) = Some (c # cs)"
proof -
  from assms have "(of_char c :: nat) < 128 \<and> \<not> (9 \<le> (of_char c :: nat) \<and> (of_char c :: nat) \<le> 13)
      \<and> (of_char c :: nat) \<noteq> 32 \<and> c \<noteq> CHR 0x0A"
    by (auto simp: is_digit_def)
  then show ?thesis
    by (simp add: SkipSpace.simps [of "c # cs"] space_width_ascii)
qed

lemma takeWhile_all: "list_all P xs \<Longrightarrow> takeWhile P xs = xs"
  by (induction xs) simp_all

lemma Sscanf_Sprintf:
  assumes "int_min \<le> p" and "p \<le> int_max"
  shows "fmt_Sscanf_d (fmt_Sprintf_d p) = Some p"
proof (cases "p < 0")
  case False
  let ?ds = "fmt_digits (nat p)"
  from fmt_digits_props [of "nat p"] have ne: "?ds \<noteq> []" and dg: "list_all is_digit ?ds"
    and v: "digits_val ?ds = nat p" by simp_all
  from ne obtain c cs where s: "?ds = c # cs" by (cases ?ds) auto
  with dg have c: "is_digit c" by simp
  from False have f: "fmt_Sprintf_d p = c # cs" by (simp add: fmt_Sprintf_d_def s)
  have k: "SkipSpace (c # cs) = Some (c # cs)" using c by (simp add: SkipSpace_digit_or_minus)
  have t: "takeWhile is_digit cs = cs" using dg s by (simp add: takeWhile_all)
  have r: "\<not> (2 ^ 63 \<le> nat p)" using assms(2) False by (simp add: int_max_def)
  have "strconv_ParseInt (c # cs) = Some p"
    using is_digit_plain [OF c] dg v r False s by (simp add: strconv_ParseInt_def Let_def)
  then have "scanInt (c # cs) = Some p"
    using is_digit_plain [OF c] c by (simp add: scanInt_def Let_def t)
  with k f show ?thesis by (simp add: fmt_Sscanf_d_def)
next
  case True
  let ?ds = "fmt_digits (nat (- p))"
  from fmt_digits_props [of "nat (- p)"] have ne: "?ds \<noteq> []" and dg: "list_all is_digit ?ds"
    and v: "digits_val ?ds = nat (- p)" by simp_all
  from True have f: "fmt_Sprintf_d p = CHR ''-'' # ?ds" by (simp add: fmt_Sprintf_d_def)
  have k: "SkipSpace (CHR ''-'' # ?ds) = Some (CHR ''-'' # ?ds)"
    by (simp add: SkipSpace_digit_or_minus)
  have t: "takeWhile is_digit ?ds = ?ds" using dg by (simp add: takeWhile_all)
  have r: "\<not> (2 ^ 63 < nat (- p))" using assms(1) True by (simp add: int_min_def)
  have "strconv_ParseInt (CHR ''-'' # ?ds) = Some p"
    using ne dg v r True by (simp add: strconv_ParseInt_def Let_def)
  then have "scanInt (CHR ''-'' # ?ds) = Some p"
    using ne by (simp add: scanInt_def Let_def t)
  with k f show ?thesis by (simp add: fmt_Sscanf_d_def)
qed

lemma Sprintf_d_no_colon: "CHR '':'' \<notin> set (fmt_Sprintf_d p)"
proof -
  have "list_all is_digit (fmt_digits n)" for n using fmt_digits_props [of n] by simp
  then have "CHR '':'' \<notin> set (fmt_digits n)" for n
    using is_digit_plain by (auto simp: list_all_iff)
  then show ?thesis by (simp add: fmt_Sprintf_d_def)
qed

text \<open>
  A key whose host name has no colon and whose port is a value of Go's \<open>int\<close> is
  parsed back from its canonical string, so on the canonical strings parsing and then
  formatting gives the input back.
\<close>

lemma ParseInstanceKey_String:
  assumes "CHR '':'' \<notin> set (Hostname k)" and "int_min \<le> Port k" and "Port k \<le> int_max"
  shows "ParseInstanceKey (InstanceKey_String k) = Inr k"
proof -
  have "strings_Split (Hostname k @ CHR '':'' # fmt_Sprintf_d (Port k)) (CHR '':'')
      = [Hostname k, fmt_Sprintf_d (Port k)]"
    by (simp add: Split_append [OF assms(1)] Split_no_sep [OF Sprintf_d_no_colon])
  then show ?thesis
    using Sscanf_Sprintf [OF assms(2,3)]
    by (simp add: ParseInstanceKey_def InstanceKey_String_def)
qed


lemma Sscanf_3306abc: "fmt_Sscanf_d ''3306abc'' = Some 3306"
  by (simp add: fmt_Sscanf_d_def SkipSpace.simps space_width_def scanInt_def is_digit_def
        strconv_ParseInt_def digits_val_def digit_val_def)

lemma Sprintf_3306: "fmt_Sprintf_d 3306 = ''3306''"
  by (simp add: fmt_Sprintf_d_def fmt_digits.simps digit_char_def)

text \<open>
  C3. \<open>ParseInstanceKey\<close> is meant to reject a port that is not a number, and the test
  of the package expects an error for \<open>host:abc\<close>. \<open>fmt.Sscanf\<close> with \<open>%d\<close> stops
  at the first byte that is not a digit and reports no error for the rest, so
  \<open>host:3306abc\<close> is accepted as the key \<open>host:3306\<close>: a malformed string parses
  without error, and formatting the result does not give the input back.
\<close>

theorem ParseInstanceKey_accepts_trailing_text:
  "ParseInstanceKey ''host:3306abc'' = Inr \<lparr>Hostname = ''host'', Port = 3306\<rparr>
   \<and> InstanceKey_String \<lparr>Hostname = ''host'', Port = 3306\<rparr> = ''host:3306''
   \<and> ParseInstanceKey ''host:abc'' = Inl (Errorf ''invalid port in instance key: abc'')"
proof -
  have a: "ParseInstanceKey ''host:3306abc'' = Inr \<lparr>Hostname = ''host'', Port = 3306\<rparr>"
    by (simp add: ParseInstanceKey_def Sscanf_3306abc)
  have b: "InstanceKey_String \<lparr>Hostname = ''host'', Port = 3306\<rparr> = ''host:3306''"
    by (simp add: InstanceKey_String_def Sprintf_3306)
  have "fmt_Sscanf_d ''abc'' = None"
    by (simp add: fmt_Sscanf_d_def SkipSpace.simps space_width_def scanInt_def is_digit_def)
  then have c: "ParseInstanceKey ''host:abc'' = Inl (Errorf ''invalid port in instance key: abc'')"
    by (simp add: ParseInstanceKey_def)
  from a b c show ?thesis by simp
qed


section \<open>Properties of the envelope check\<close>

lemma foldName_Code: "foldName ''Code'' = ''CODE''"
  by (simp add: foldName.simps ascii_upper_def)

lemma foldName_Message: "foldName ''Message'' = ''MESSAGE''"
  by (simp add: foldName.simps ascii_upper_def)

lemma foldName_Details: "foldName ''Details'' = ''DETAILS''"
  by (simp add: foldName.simps ascii_upper_def)

lemma fieldMatch_envelope:
  "fieldMatch ''Code'' ''Code''" "\<not> fieldMatch ''Message'' ''Code''" "\<not> fieldMatch ''Details'' ''Code''"
  "fieldMatch ''Message'' ''Message''" "\<not> fieldMatch ''Details'' ''Message''"
  "fieldMatch ''Details'' ''Details''"
  by (simp_all add: fieldMatch_def foldName_Code foldName_Message foldName_Details)


lemma ParseInt_1: "strconv_ParseInt ''1'' = Some 1"
  by (simp add: strconv_ParseInt_def is_digit_def digits_val_def digit_val_def)


lemma getJSON_codeless_response:
  "getJSON (answering codeless_response) c path = Inr \<lparr>Code = 0, Message = ''down'', Details = GoNil\<rparr>"
  by (simp add: getJSON_def get_def doRequest_def answering_def codeless_response_def codeless_doc_def parseResponse_def
        unmarshal_APIResponse_def fieldMatch_envelope zero_APIResponse_def)

lemma getJSON_ok_response:
  "valueInterface d = Some v \<Longrightarrow>
   getJSON (answering (ok_response t d)) c path = Inr \<lparr>Code = 1, Message = ''ok'', Details = v\<rparr>"
  by (simp add: getJSON_def get_def doRequest_def answering_def ok_response_def ok_doc_def parseResponse_def
        unmarshal_APIResponse_def fieldMatch_envelope ParseInt_1 zero_APIResponse_def)






section \<open>Properties of decoding the envelope\<close>

lemma unmarshal_members_keeps_Code:
  "list_all (\<lambda>m. \<not> fieldMatch (fst m) ''Code'') ms \<Longrightarrow> unmarshal_members ms r = Some r' \<Longrightarrow>
   Code r' = Code r"
proof (induction ms arbitrary: r)
  case Nil
  then show ?case by simp
next
  case (Cons m ms)
  from Cons.prems(1) have nm: "\<not> fieldMatch (fst m) ''Code''"
    and rest: "list_all (\<lambda>m. \<not> fieldMatch (fst m) ''Code'') ms" by simp_all
  show ?case
  proof (cases "fieldMatch (fst m) ''Message''")
    case True
    with Cons.prems(2) nm obtain r1 where "unmarshal_members ms r1 = Some r'" "Code r1 = Code r"
      by (cases "snd m") auto
    with Cons.IH [OF rest] show ?thesis by metis
  next
    case False
    note nmsg = False
    show ?thesis
    proof (cases "fieldMatch (fst m) ''Details''")
      case True
      with Cons.prems(2) nm nmsg obtain r1 where "unmarshal_members ms r1 = Some r'" "Code r1 = Code r"
        by (cases "valueInterface (snd m)") auto
      with Cons.IH [OF rest] show ?thesis by metis
    next
      case False
      with Cons.prems(2) nm nmsg have "unmarshal_members ms r = Some r'" by simp
      with Cons.IH [OF rest] show ?thesis by simp
    qed
  qed
qed

lemma unmarshal_members_OK_source:
  "unmarshal_members ms r = Some r' \<Longrightarrow> Code r' = OK \<Longrightarrow> Code r = OK \<or> list_ex is_OK_member ms"
proof (induction ms arbitrary: r)
  case Nil
  then show ?case by simp
next
  case (Cons m ms)
  show ?case
  proof (cases "fieldMatch (fst m) ''Code''")
    case True
    note isc = True
    show ?thesis
    proof (cases "snd m")
      case JNull
      with Cons.prems isc have "unmarshal_members ms r = Some r'" by simp
      from Cons.IH [OF this Cons.prems(2)] show ?thesis by auto
    next
      case (JNumber lit f)
      with Cons.prems isc obtain n where n: "strconv_ParseInt lit = Some n"
        and u: "unmarshal_members ms (r\<lparr>Code := n\<rparr>) = Some r'"
        by (cases "strconv_ParseInt lit") auto
      from Cons.IH [OF u Cons.prems(2)] have "n = OK \<or> list_ex is_OK_member ms" by simp
      then show ?thesis
      proof
        assume "n = OK"
        with n isc JNumber have "is_OK_member m" by (simp add: is_OK_member_def)
        then show ?thesis by simp
      next
        assume "list_ex is_OK_member ms"
        then show ?thesis by simp
      qed
    next
      case (JBool b)
      with Cons.prems isc show ?thesis by simp
    next
      case (JString s)
      with Cons.prems isc show ?thesis by simp
    next
      case (JArray xs)
      with Cons.prems isc show ?thesis by simp
    next
      case (JObject kvs)
      with Cons.prems isc show ?thesis by simp
    qed
  next
    case False
    note nc = False
    show ?thesis
    proof (cases "fieldMatch (fst m) ''Message''")
      case True
      with Cons.prems(1) nc obtain r1 where "unmarshal_members ms r1 = Some r'" "Code r1 = Code r"
        by (cases "snd m") auto
      with Cons.IH [of r1] Cons.prems(2) show ?thesis by auto
    next
      case False
      note nmsg = False
      show ?thesis
      proof (cases "fieldMatch (fst m) ''Details''")
        case True
        with Cons.prems(1) nc nmsg obtain r1 where "unmarshal_members ms r1 = Some r'" "Code r1 = Code r"
          by (cases "valueInterface (snd m)") auto
        with Cons.IH [of r1] Cons.prems(2) show ?thesis by auto
      next
        case False
        with Cons.prems(1) nc nmsg have "unmarshal_members ms r = Some r'" by simp
        from Cons.IH [OF this Cons.prems(2)] show ?thesis by auto
      qed
    qed
  qed
qed

lemma getJSON_Inr_D:
  assumes "getJSON net c path = Inr r"
  shows "\<exists>resp doc. net ''GET'' (baseURL c @ urlPrefix c @ path) = Response resp
           \<and> StatusCode resp < 400 \<and> BodyJSON resp = Some doc
           \<and> unmarshal_APIResponse doc zero_APIResponse = Some r"
proof -
  from assms obtain resp where n: "net ''GET'' (baseURL c @ urlPrefix c @ path) = Response resp"
    and p: "parseResponse resp zero_APIResponse = Inr r"
    by (auto simp: getJSON_def get_def doRequest_def Let_def split: sum.splits transport.splits)
  from p have s: "StatusCode resp < 400"
    by (auto simp: parseResponse_def split: if_splits)
  from p s obtain doc where d: "BodyJSON resp = Some doc"
    by (cases "BodyJSON resp") (auto simp: parseResponse_def)
  from p s d have "unmarshal_APIResponse doc zero_APIResponse = Some r"
    by (cases "unmarshal_APIResponse doc zero_APIResponse") (auto simp: parseResponse_def)
  with n s d show ?thesis by blast
qed

lemma decoded_omits_Code:
  assumes "unmarshal_APIResponse doc zero_APIResponse = Some r" and "omits_Code doc"
  shows "Code r = ERROR"
proof -
  from assms(2) obtain ms where doc: "doc = JObject ms"
    and all: "list_all (\<lambda>m. \<not> fieldMatch (fst m) ''Code'') ms"
    by (cases doc) (auto simp: omits_Code_def)
  from assms(1) doc have "unmarshal_members ms zero_APIResponse = Some r"
    by (simp add: unmarshal_APIResponse_def)
  from unmarshal_members_keeps_Code [OF all this] show ?thesis
    by (simp add: zero_APIResponse_def ERROR_def)
qed

lemma decoded_OK_carries:
  assumes "unmarshal_APIResponse doc zero_APIResponse = Some r" and "Code r = OK"
  shows "carries_OK doc"
proof (cases doc)
  case JNull
  with assms show ?thesis by (auto simp: unmarshal_APIResponse_def zero_APIResponse_def OK_def)
next
  case (JObject ms)
  with assms(1) have "unmarshal_members ms zero_APIResponse = Some r"
    by (simp add: unmarshal_APIResponse_def)
  from unmarshal_members_OK_source [OF this assms(2)] have "list_ex is_OK_member ms"
    by (simp add: zero_APIResponse_def OK_def)
  with JObject show ?thesis by (simp add: carries_OK_def)
next
  case (JBool b)
  with assms show ?thesis by (simp add: unmarshal_APIResponse_def)
next
  case (JNumber lit f)
  with assms show ?thesis by (simp add: unmarshal_APIResponse_def)
next
  case (JString s)
  with assms show ?thesis by (simp add: unmarshal_APIResponse_def)
next
  case (JArray xs)
  with assms show ?thesis by (simp add: unmarshal_APIResponse_def)
qed

text \<open>An operation that does not return an error has decoded an envelope whose code is \<open>OK\<close>.\<close>

lemma success_needs_OK:
  "\<not> isl (GetInstance net conv1 c key) \<Longrightarrow>
     \<exists>r. getJSON net c (GetInstance_path key) = Inr r \<and> Code r = OK"
  "\<not> isl (GetInstanceReplicas net conv2 c key) \<Longrightarrow>
     \<exists>r. getJSON net c (GetInstanceReplicas_path key) = Inr r \<and> Code r = OK"
  "\<not> isl (SearchInstances net conv2 c s) \<Longrightarrow>
     \<exists>r. getJSON net c (SearchInstances_path s) = Inr r \<and> Code r = OK"
  "\<not> isl (GetClusterPoolInstancesForPool net c cl p) \<Longrightarrow>
     \<exists>r. getJSON net c (GetClusterPoolInstancesForPool_path cl p) = Inr r \<and> Code r = OK"
  "\<not> isl (GetHeuristicClusterPoolInstancesForPool net c cl p) \<Longrightarrow>
     \<exists>r. getJSON net c (GetHeuristicClusterPoolInstancesForPool_path cl p) = Inr r \<and> Code r = OK"
  "\<not> isl (GetHeuristicClusterPoolLagForPool net f2i c cl p) \<Longrightarrow>
     \<exists>r. getJSON net c (GetHeuristicClusterPoolLagForPool_path cl p) = Inr r \<and> Code r = OK"
  "\<not> isl (Status net c) \<Longrightarrow> \<exists>r. getJSON net c ''/api/status'' = Inr r \<and> Code r = OK"
  "\<not> isl (GetRaftStatus net c) \<Longrightarrow> \<exists>r. getJSON net c ''/api/raft-status'' = Inr r \<and> Code r = OK"
  "\<not> isl (GetRaftLeader net sprint c) \<Longrightarrow> \<exists>r. getJSON net c ''/api/raft-leader'' = Inr r \<and> Code r = OK"
  "\<not> isl (GetInstanceSpecificTagValue net sprint c key tag) \<Longrightarrow>
     \<exists>r. getJSON net c (GetInstanceSpecificTagValue_path key tag) = Inr r \<and> Code r = OK"
  "\<not> isl (CheckGlobalRecoveries net c) \<Longrightarrow>
     \<exists>r. getJSON net c ''/api/check-global-recoveries'' = Inr r \<and> Code r = OK"
  "\<not> isl (Reelect net c) \<Longrightarrow> \<exists>r. getJSON net c ''/api/reelect'' = Inr r \<and> Code r = OK"
  "\<not> isl (Health net c) \<Longrightarrow> \<exists>r. getJSON net c ''/api/health'' = Inr r \<and> Code r = OK"
  "\<not> isl (LBCheck net c) \<Longrightarrow> \<exists>r. getJSON net c ''/api/lb-check'' = Inr r \<and> Code r = OK"
  "\<not> isl (Ping net c) \<Longrightarrow> \<exists>r. getJSON net c ''/api/_ping'' = Inr r \<and> Code r = OK"
  "\<not> isl (LeaderCheck net c) \<Longrightarrow> \<exists>r. getJSON net c ''/api/leader-check'' = Inr r \<and> Code r = OK"
  by (auto simp: GetInstance_def GetInstanceReplicas_def SearchInstances_def
        GetClusterPoolInstancesForPool_def GetHeuristicClusterPoolInstancesForPool_def
        GetHeuristicClusterPoolLagForPool_def Status_def GetRaftStatus_def GetRaftLeader_def
        GetInstanceSpecificTagValue_def CheckGlobalRecoveries_def Reelect_def Health_def
        LBCheck_def Ping_def LeaderCheck_def split: sum.splits if_splits)


text \<open>
  C9. In the integer-code client the zero value of the code is \<open>ERROR\<close>. When the server
  answers with an envelope that omits the code, every envelope that \<open>getJSON\<close> decodes
  has the code \<open>ERROR\<close> and every operation that reads the envelope returns an error;
  and when any such operation returns without an error, the envelope carries the success
  code explicitly: one of its members matches \<open>Code\<close> and its number reads as \<open>OK\<close>.
\<close>

theorem missing_Code_decodes_to_ERROR:
  assumes srv: "\<forall>url. net ''GET'' url = Response resp"
    and body: "BodyJSON resp = Some doc"
  shows
  "Code zero_APIResponse = ERROR
   \<and> (omits_Code doc \<longrightarrow>
        (\<forall>path r. getJSON net c path = Inr r \<longrightarrow> Code r = ERROR)
        \<and> isl (GetInstance net conv1 c key)
        \<and> isl (GetInstanceReplicas net conv2 c key)
        \<and> isl (SearchInstances net conv2 c s)
        \<and> isl (GetClusterPoolInstancesForPool net c cl p)
        \<and> isl (GetHeuristicClusterPoolInstancesForPool net c cl p)
        \<and> isl (GetHeuristicClusterPoolLagForPool net f2i c cl p)
        \<and> isl (Status net c)
        \<and> isl (GetRaftStatus net c)
        \<and> isl (GetRaftLeader net sprint c)
        \<and> isl (GetInstanceSpecificTagValue net sprint c key tag)
        \<and> isl (CheckGlobalRecoveries net c)
        \<and> isl (Reelect net c)
        \<and> isl (Health net c)
        \<and> isl (LBCheck net c)
        \<and> isl (Ping net c)
        \<and> isl (LeaderCheck net c))
   \<and> (\<not> (isl (GetInstance net conv1 c key)
          \<and> isl (GetInstanceReplicas net conv2 c key)
          \<and> isl (SearchInstances net conv2 c s)
          \<and> isl (GetClusterPoolInstancesForPool net c cl p)
          \<and> isl (GetHeuristicClusterPoolInstancesForPool net c cl p)
          \<and> isl (GetHeuristicClusterPoolLagForPool net f2i c cl p)
          \<and> isl (Status net c)
          \<and> isl (GetRaftStatus net c)
          \<and> isl (GetRaftLeader net sprint c)
          \<and> isl (GetInstanceSpecificTagValue net sprint c key tag)
          \<and> isl (CheckGlobalRecoveries net c)
          \<and> isl (Reelect net c)
          \<and> isl (Health net c)
          \<and> isl (LBCheck net c)
          \<and> isl (Ping net c)
          \<and> isl (LeaderCheck net c))
        \<longrightarrow> carries_OK doc)"
proof -
  have z: "Code zero_APIResponse = ERROR"
    by (simp add: zero_APIResponse_def ERROR_def)
  have dec: "unmarshal_APIResponse doc zero_APIResponse = Some r"
    if "getJSON net c path = Inr r" for path r
  proof -
    from getJSON_Inr_D [OF that] obtain resp' doc' where
      "net ''GET'' (baseURL c @ urlPrefix c @ path) = Response resp'"
      "BodyJSON resp' = Some doc'" "unmarshal_APIResponse doc' zero_APIResponse = Some r"
      by blast
    with srv body show ?thesis by simp
  qed
  have ok: "carries_OK doc" if "getJSON net c path = Inr r" "Code r = OK" for path r
    using decoded_OK_carries [OF dec [OF that(1)] that(2)] .
  have err: "Code r = ERROR" if "omits_Code doc" "getJSON net c path = Inr r" for path r
    using decoded_omits_Code [OF dec [OF that(2)] that(1)] .
  have ne: "ERROR \<noteq> OK" by (simp add: ERROR_def OK_def)
  have all_err: "isl (GetInstance net conv1 c key)
          \<and> isl (GetInstanceReplicas net conv2 c key)
          \<and> isl (SearchInstances net conv2 c s)
          \<and> isl (GetClusterPoolInstancesForPool net c cl p)
          \<and> isl (GetHeuristicClusterPoolInstancesForPool net c cl p)
          \<and> isl (GetHeuristicClusterPoolLagForPool net f2i c cl p)
          \<and> isl (Status net c)
          \<and> isl (GetRaftStatus net c)
          \<and> isl (GetRaftLeader net sprint c)
          \<and> isl (GetInstanceSpecificTagValue net sprint c key tag)
          \<and> isl (CheckGlobalRecoveries net c)
          \<and> isl (Reelect net c)
          \<and> isl (Health net c)
          \<and> isl (LBCheck net c)
          \<and> isl (Ping net c)
          \<and> isl (LeaderCheck net c)"
    if noOK: "\<And>path r. getJSON net c path = Inr r \<Longrightarrow> Code r \<noteq> OK"
  proof -
    have "isl (GetInstance net conv1 c key)" using noOK by (metis success_needs_OK(1))
    moreover have "isl (GetInstanceReplicas net conv2 c key)" using noOK by (metis success_needs_OK(2))
    moreover have "isl (SearchInstances net conv2 c s)" using noOK by (metis success_needs_OK(3))
    moreover have "isl (GetClusterPoolInstancesForPool net c cl p)"
      using noOK by (metis success_needs_OK(4))
    moreover have "isl (GetHeuristicClusterPoolInstancesForPool net c cl p)"
      using noOK by (metis success_needs_OK(5))
    moreover have "isl (GetHeuristicClusterPoolLagForPool net f2i c cl p)"
      using noOK by (metis success_needs_OK(6))
    moreover have "isl (Status net c)" using noOK by (metis success_needs_OK(7))
    moreover have "isl (GetRaftStatus net c)" using noOK by (metis success_needs_OK(8))
    moreover have "isl (GetRaftLeader net sprint c)" using noOK by (metis success_needs_OK(9))
    moreover have "isl (GetInstanceSpecificTagValue net sprint c key tag)"
      using noOK by (metis success_needs_OK(10))
    moreover have "isl (CheckGlobalRecoveries net c)" using noOK by (metis success_needs_OK(11))
    moreover have "isl (Reelect net c)" using noOK by (metis success_needs_OK(12))
    moreover have "isl (Health net c)" using noOK by (metis success_needs_OK(13))
    moreover have "isl (LBCheck net c)" using noOK by (metis success_needs_OK(14))
    moreover have "isl (Ping net c)" using noOK by (metis success_needs_OK(15))
    moreover have "isl (LeaderCheck net c)" using noOK by (metis success_needs_OK(16))
    ultimately show ?thesis by blast
  qed
  have a: "omits_Code doc \<longrightarrow>
        (\<forall>path r. getJSON net c path = Inr r \<longrightarrow> Code r = ERROR)
        \<and> isl (GetInstance net conv1 c key)
        \<and> isl (GetInstanceReplicas net conv2 c key)
        \<and> isl (SearchInstances net conv2 c s)
        \<and> isl (GetClusterPoolInstancesForPool net c cl p)
        \<and> isl (GetHeuristicClusterPoolInstancesForPool net c cl p)
        \<and> isl (GetHeuristicClusterPoolLagForPool net f2i c cl p)
        \<and> isl (Status net c)
        \<and> isl (GetRaftStatus net c)
        \<and> isl (GetRaftLeader net sprint c)
        \<and> isl (GetInstanceSpecificTagValue net sprint c key tag)
        \<and> isl (CheckGlobalRecoveries net c)
        \<and> isl (Reelect net c)
        \<and> isl (Health net c)
        \<and> isl (LBCheck net c)
        \<and> isl (Ping net c)
        \<and> isl (LeaderCheck net c)"
  proof
    assume o: "omits_Code doc"
    have e: "\<forall>path r. getJSON net c path = Inr r \<longrightarrow> Code r = ERROR"
      using err [OF o] by blast
    then have "\<And>path r. getJSON net c path = Inr r \<Longrightarrow> Code r \<noteq> OK"
      using ne by metis
    from all_err [OF this] e show "(\<forall>path r. getJSON net c path = Inr r \<longrightarrow> Code r = ERROR)
        \<and> isl (GetInstance net conv1 c key)
        \<and> isl (GetInstanceReplicas net conv2 c key)
        \<and> isl (SearchInstances net conv2 c s)
        \<and> isl (GetClusterPoolInstancesForPool net c cl p)
        \<and> isl (GetHeuristicClusterPoolInstancesForPool net c cl p)
        \<and> isl (GetHeuristicClusterPoolLagForPool net f2i c cl p)
        \<and> isl (Status net c)
        \<and> isl (GetRaftStatus net c)
        \<and> isl (GetRaftLeader net sprint c)
        \<and> isl (GetInstanceSpecificTagValue net sprint c key tag)
        \<and> isl (CheckGlobalRecoveries net c)
        \<and> isl (Reelect net c)
        \<and> isl (Health net c)
        \<and> isl (LBCheck net c)
        \<and> isl (Ping net c)
        \<and> isl (LeaderCheck net c)" by simp
  qed
  have b: "\<not> (isl (GetInstance net conv1 c key)
          \<and> isl (GetInstanceReplicas net conv2 c key)
          \<and> isl (SearchInstances net conv2 c s)
          \<and> isl (GetClusterPoolInstancesForPool net c cl p)
          \<and> isl (GetHeuristicClusterPoolInstancesForPool net c cl p)
          \<and> isl (GetHeuristicClusterPoolLagForPool net f2i c cl p)
          \<and> isl (Status net c)
          \<and> isl (GetRaftStatus net c)
          \<and> isl (GetRaftLeader net sprint c)
          \<and> isl (GetInstanceSpecificTagValue net sprint c key tag)
          \<and> isl (CheckGlobalRecoveries net c)
          \<and> isl (Reelect net c)
          \<and> isl (Health net c)
          \<and> isl (LBCheck net c)
          \<and> isl (Ping net c)
          \<and> isl (LeaderCheck net c))
        \<longrightarrow> carries_OK doc"
  proof (rule impI, rule ccontr)
    assume n: "\<not> carries_OK doc"
    then have "\<And>path r. getJSON net c path = Inr r \<Longrightarrow> Code r \<noteq> OK"
      using ok by blast
    from all_err [OF this]
    show "\<not> (isl (GetInstance net conv1 c key)
          \<and> isl (GetInstanceReplicas net conv2 c key)
          \<and> isl (SearchInstances net conv2 c s)
          \<and> isl (GetClusterPoolInstancesForPool net c cl p)
          \<and> isl (GetHeuristicClusterPoolInstancesForPool net c cl p)
          \<and> isl (GetHeuristicClusterPoolLagForPool net f2i c cl p)
          \<and> isl (Status net c)
          \<and> isl (GetRaftStatus net c)
          \<and> isl (GetRaftLeader net sprint c)
          \<and> isl (GetInstanceSpecificTagValue net sprint c key tag)
          \<and> isl (CheckGlobalRecoveries net c)
          \<and> isl (Reelect net c)
          \<and> isl (Health net c)
          \<and> isl (LBCheck net c)
          \<and> isl (Ping net c)
          \<and> isl (LeaderCheck net c)) \<Longrightarrow> False" by simp
  qed
  from z a b show ?thesis by (intro conjI)
qed

theorem missing_Code_decodes_to_ERROR_witness:
  "omits_Code codeless_doc
   \<and> getJSON (answering codeless_response) example_client ''/api/health''
       = Inr \<lparr>Code = ERROR, Message = ''down'', Details = GoNil\<rparr>
   \<and> isl (Health (answering codeless_response) example_client)
   \<and> isl (GetInstance (answering codeless_response) no_conv example_client example_key)
   \<and> isl (GetRaftLeader (answering codeless_response) example_Sprint example_client)
   \<and> \<not> isl (Health (answering (ok_response ''null'' JNull)) example_client)
   \<and> carries_OK (ok_doc JNull)"
proof -
  have o: "omits_Code codeless_doc"
    by (simp add: omits_Code_def codeless_doc_def fieldMatch_envelope)
  have s1: "\<forall>url. answering codeless_response ''GET'' url = Response codeless_response"
    by (simp add: answering_def)
  have b1: "BodyJSON codeless_response = Some codeless_doc"
    by (simp add: codeless_response_def)
  note w1 = missing_Code_decodes_to_ERROR [where net = "answering codeless_response"
      and resp = codeless_response and doc = codeless_doc and c = example_client
      and ?conv1.0 = no_conv and ?conv2.0 = no_conv_slice and key = example_key and s = "''x''"
      and cl = "''c''" and p = "''p''" and f2i = example_int64 and sprint = example_Sprint
      and tag = "''t''", OF s1 b1]
  have s2: "\<forall>url. answering (ok_response ''null'' JNull) ''GET'' url
              = Response (ok_response ''null'' JNull)"
    by (simp add: answering_def)
  have b2: "BodyJSON (ok_response ''null'' JNull) = Some (ok_doc JNull)"
    by (simp add: ok_response_def)
  note w2 = missing_Code_decodes_to_ERROR [where net = "answering (ok_response ''null'' JNull)"
      and resp = "ok_response ''null'' JNull" and doc = "ok_doc JNull" and c = example_client
      and ?conv1.0 = no_conv and ?conv2.0 = no_conv_slice and key = example_key and s = "''x''"
      and cl = "''c''" and p = "''p''" and f2i = example_int64 and sprint = example_Sprint
      and tag = "''t''", OF s2 b2]
  have h: "\<not> isl (Health (answering (ok_response ''null'' JNull)) example_client)"
    by (simp add: Health_def getJSON_ok_response OK_def)
  have g: "getJSON (answering codeless_response) example_client ''/api/health''
       = Inr \<lparr>Code = ERROR, Message = ''down'', Details = GoNil\<rparr>"
    by (simp add: getJSON_codeless_response ERROR_def)
  from w1 o have "isl (Health (answering codeless_response) example_client)"
    "isl (GetInstance (answering codeless_response) no_conv example_client example_key)"
    "isl (GetRaftLeader (answering codeless_response) example_Sprint example_client)"
    by blast+
  moreover from w2 h have "carries_OK (ok_doc JNull)" by blast
  ultimately show ?thesis using o g h by simp
qed


section \<open>Properties of the conversion of Details\<close>

lemma parse_keys_loop_map_filter:
  "parse_keys_loop keys ss = keys @ List.map_filter parsed_key ss"
proof (induction ss arbitrary: keys)
  case Nil
  then show ?case by (simp add: List.map_filter_simps)
next
  case (Cons s ss)
  then show ?case
    by (cases "ParseInstanceKey s") (simp_all add: List.map_filter_simps parsed_key_def)
qed

lemma string_elems_strings: "string_elems (map GoString ss) = Some ss"
  by (induction ss) simp_all

lemma convertToStringSlice_strings:
  "convertToStringSlice (GoSlice (map GoString ss)) = Inr (Some ss)"
  by (simp add: convertToStringSlice_def remarshal_string_slice_def string_elems_strings)

text \<open>
  C10. For a successful envelope whose \<open>Details\<close> is a list of strings, both pool
  operations return, without an error, the keys of exactly the entries that
  \<open>ParseInstanceKey\<close> accepts, in the order of the list; the entries it rejects are
  skipped.
\<close>

theorem pool_instances_are_the_parsed_entries:
  assumes "Code r = OK" and "Details r = GoSlice (map GoString ss)"
  shows
  "(getJSON net c (GetClusterPoolInstancesForPool_path cl p) = Inr r \<longrightarrow>
      GetClusterPoolInstancesForPool net c cl p = Inr (Some (List.map_filter parsed_key ss)))
   \<and> (getJSON net c (GetHeuristicClusterPoolInstancesForPool_path cl p) = Inr r \<longrightarrow>
      GetHeuristicClusterPoolInstancesForPool net c cl p
        = Inr (Some (List.map_filter parsed_key ss)))"
  using assms
  by (simp add: GetClusterPoolInstancesForPool_def GetHeuristicClusterPoolInstancesForPool_def
        convertToStringSlice_strings range_of_def parse_keys_loop_map_filter)

lemma Sscanf_3306: "fmt_Sscanf_d ''3306'' = Some 3306"
  by (simp add: fmt_Sscanf_d_def SkipSpace.simps space_width_def scanInt_def is_digit_def
        strconv_ParseInt_def digits_val_def digit_val_def)

lemma Sscanf_3307: "fmt_Sscanf_d ''3307'' = Some 3307"
  by (simp add: fmt_Sscanf_d_def SkipSpace.simps space_width_def scanInt_def is_digit_def
        strconv_ParseInt_def digits_val_def digit_val_def)

lemma parsed_key_examples:
  "parsed_key ''db1:3306'' = Some \<lparr>Hostname = ''db1'', Port = 3306\<rparr>"
  "parsed_key ''bad'' = None"
  "parsed_key ''db2:3307'' = Some \<lparr>Hostname = ''db2'', Port = 3307\<rparr>"
  by (simp_all add: parsed_key_def ParseInstanceKey_def Sscanf_3306 Sscanf_3307)

theorem pool_instances_are_the_parsed_entries_witness:
  "GetClusterPoolInstancesForPool
     (answering (ok_response (''['' @ quoted ''db1:3306'' @ '','' @ quoted ''bad'' @ '','' @ quoted ''db2:3307'' @ '']'')
        (JArray [JString ''db1:3306'', JString ''bad'', JString ''db2:3307''])))
     example_client ''c'' ''p''
   = Inr (Some [\<lparr>Hostname = ''db1'', Port = 3306\<rparr>, \<lparr>Hostname = ''db2'', Port = 3307\<rparr>])
   \<and> GetHeuristicClusterPoolInstancesForPool
     (answering (ok_response (''['' @ quoted ''db1:3306'' @ '','' @ quoted ''bad'' @ '','' @ quoted ''db2:3307'' @ '']'')
        (JArray [JString ''db1:3306'', JString ''bad'', JString ''db2:3307''])))
     example_client ''c'' ''p''
   = Inr (Some [\<lparr>Hostname = ''db1'', Port = 3306\<rparr>, \<lparr>Hostname = ''db2'', Port = 3307\<rparr>])"
proof -
  let ?ss = "[''db1:3306'', ''bad'', ''db2:3307'']"
  let ?d = "JArray [JString ''db1:3306'', JString ''bad'', JString ''db2:3307''] :: int json"
  let ?t = "''['' @ quoted ''db1:3306'' @ '','' @ quoted ''bad'' @ '','' @ quoted ''db2:3307'' @ '']''"
  let ?r = "\<lparr>Code = 1, Message = ''ok'', Details = GoSlice (map GoString ?ss) :: int goval\<rparr>"
  have v: "valueInterface ?d = Some (GoSlice (map GoString ?ss))" by simp
  have g: "getJSON (answering (ok_response ?t ?d)) example_client path = Inr ?r" for path
    using getJSON_ok_response [OF v] by simp
  have c: "Code ?r = OK" by (simp add: OK_def)
  have d: "Details ?r = GoSlice (map GoString ?ss)" by simp
  have m: "List.map_filter parsed_key ?ss
      = [\<lparr>Hostname = ''db1'', Port = 3306\<rparr>, \<lparr>Hostname = ''db2'', Port = 3307\<rparr>]"
    by (simp add: List.map_filter_simps parsed_key_examples)
  from pool_instances_are_the_parsed_entries [OF c d, of "answering (ok_response ?t ?d)"
      example_client "''c''" "''p''"] g m
  show ?thesis by simp
qed



text \<open>
  C5 as stated fails for the boolean accessor: \<open>CheckGlobalRecoveries\<close> reads
  \<open>Details\<close> through \<open>convertToBool\<close>, which returns an error for a value that is not
  a \<open>bool\<close>; the string \<open>"true"\<close> is not stringified or read as a flag.
\<close>

theorem CheckGlobalRecoveries_string_counterexample:
  "CheckGlobalRecoveries (answering (ok_response (quoted ''true'') (JString ''true''))) example_client
     = Inl (Errorf ''data is not a bool'')"
proof -
  have "getJSON (answering (ok_response (quoted ''true'') (JString ''true''))) example_client
      ''/api/check-global-recoveries'' = Inr \<lparr>Code = 1, Message = ''ok'', Details = GoString ''true''\<rparr>"
    by (rule getJSON_ok_response) simp
  then show ?thesis
    by (simp add: CheckGlobalRecoveries_def OK_def convertToBool_def)
qed

text \<open>
  C5, amended. For a successful envelope the string accessors \<open>GetRaftLeader\<close> and
  \<open>GetInstanceSpecificTagValue\<close> read \<open>Details\<close> directly and never return an error:
  \<open>nil\<close> gives the empty string, a string gives itself, and a value of any other type
  is stringified with \<open>fmt.Sprint\<close>. The boolean accessor \<open>CheckGlobalRecoveries\<close>
  returns the value when \<open>Details\<close> is a \<open>bool\<close> and an error otherwise: \<open>nil data\<close>
  for \<open>nil\<close>, \<open>data is not a bool\<close> for a value of another type.
\<close>

theorem scalar_accessors_by_type:
  assumes "Code r = OK"
  shows
  "(getJSON net c ''/api/raft-leader'' = Inr r \<longrightarrow>
      GetRaftLeader net sprint c
        = Inr (case Details r of GoNil \<Rightarrow> [] | GoString str \<Rightarrow> str | _ \<Rightarrow> sprint (Details r)))
   \<and> (getJSON net c (GetInstanceSpecificTagValue_path key tag) = Inr r \<longrightarrow>
      GetInstanceSpecificTagValue net sprint c key tag
        = Inr (case Details r of GoNil \<Rightarrow> [] | GoString str \<Rightarrow> str | _ \<Rightarrow> sprint (Details r)))
   \<and> (getJSON net c ''/api/check-global-recoveries'' = Inr r \<longrightarrow>
      CheckGlobalRecoveries net c
        = (case Details r of
             GoBool b \<Rightarrow> Inr b
           | GoNil \<Rightarrow> Inl (Errorf ''nil data'')
           | _ \<Rightarrow> Inl (Errorf ''data is not a bool'')))"
proof -
  have 1: "getJSON net c ''/api/raft-leader'' = Inr r \<longrightarrow>
      GetRaftLeader net sprint c
        = Inr (case Details r of GoNil \<Rightarrow> [] | GoString str \<Rightarrow> str | _ \<Rightarrow> sprint (Details r))"
    using assms by (cases "Details r") (simp_all add: GetRaftLeader_def)
  have 2: "getJSON net c (GetInstanceSpecificTagValue_path key tag) = Inr r \<longrightarrow>
      GetInstanceSpecificTagValue net sprint c key tag
        = Inr (case Details r of GoNil \<Rightarrow> [] | GoString str \<Rightarrow> str | _ \<Rightarrow> sprint (Details r))"
    using assms by (cases "Details r") (simp_all add: GetInstanceSpecificTagValue_def)
  have 3: "getJSON net c ''/api/check-global-recoveries'' = Inr r \<longrightarrow>
      CheckGlobalRecoveries net c
        = (case Details r of
             GoBool b \<Rightarrow> Inr b
           | GoNil \<Rightarrow> Inl (Errorf ''nil data'')
           | _ \<Rightarrow> Inl (Errorf ''data is not a bool''))"
    using assms by (cases "Details r") (simp_all add: CheckGlobalRecoveries_def convertToBool_def)
  from 1 2 3 show ?thesis by blast
qed

theorem scalar_accessors_by_type_witness:
  "GetRaftLeader (answering (ok_response ''true'' (JBool True))) example_Sprint example_client
     = Inr ''true''
   \<and> GetInstanceSpecificTagValue (answering (ok_response ''true'' (JBool True))) example_Sprint
       example_client example_key ''t'' = Inr ''true''
   \<and> CheckGlobalRecoveries (answering (ok_response ''true'' (JBool True))) example_client
     = Inr True"
proof -
  let ?r = "\<lparr>Code = 1, Message = ''ok'', Details = GoBool True :: int goval\<rparr>"
  have g: "getJSON (answering (ok_response ''true'' (JBool True))) example_client path = Inr ?r"
    for path by (rule getJSON_ok_response) simp
  have c: "Code ?r = OK" by (simp add: OK_def)
  from scalar_accessors_by_type [OF c, where net = "answering (ok_response ''true'' (JBool True))"
      and c = example_client and sprint = example_Sprint and key = example_key and tag = "''t''"]
  show ?thesis by (simp add: g example_Sprint_def)
qed


section \<open>Properties of collections decoded from nil Details\<close>

lemma go_unmarshal_ok_null:
  "go_unmarshal_APIResponse go_ok_null_doc go_zero_APIResponse = Some go_ok_null_envelope"
  by (simp add: go_unmarshal_APIResponse_def go_ok_null_doc_def go_zero_APIResponse_def
        go_ok_null_envelope_def fieldMatch_envelope)

text \<open>
  C2 as stated fails in the string-code client: \<open>parseAPIResponse\<close> converts
  \<open>Details\<close> only when it is not \<open>nil\<close>, so for a successful envelope with
  \<open>Details: null\<close> the slice that \<open>GetHeuristicClusterPoolInstances\<close> declared stays
  \<open>nil\<close> and is returned: the result is the \<open>nil\<close> slice, not the empty one.
\<close>

theorem go_nil_Details_nil_slice_counterexample:
  "go_GetHeuristicClusterPoolInstances (answering go_ok_null_response) no_conv_slice
     example_go_client ''c'' ''p'' = Inr None"
  by (simp add: go_GetHeuristicClusterPoolInstances_def go_doRequest_def answering_def
        go_parseAPIResponse_def go_ok_null_response_def go_unmarshal_ok_null
        go_ok_null_envelope_def)

text \<open>
  C2, amended. In the integer-code client, for a successful envelope whose \<open>Details\<close>
  is \<open>nil\<close>, the helpers \<open>convertToInstanceSlice\<close> and \<open>convertToStringSlice\<close>, the
  operations that return through them and \<open>GetRaftStatus\<close> return an empty collection
  that is not \<open>nil\<close>. In the string-code client, for an envelope whose code is not
  \<open>ERROR\<close> and whose \<open>Details\<close> is \<open>nil\<close>, \<open>parseAPIResponse\<close> leaves the caller's
  variable as it was, so an operation that declared a slice returns it \<open>nil\<close>.
\<close>

theorem nil_Details_collections:
  assumes "Code r = OK" and "Details r = GoNil"
  shows
  "convertToInstanceSlice conv (Details r) = Inr (Some [])
   \<and> convertToStringSlice (Details r) = Inr (Some [])
   \<and> (getJSON net c (GetInstanceReplicas_path key) = Inr r \<longrightarrow>
        GetInstanceReplicas net conv c key = Inr (Some []))
   \<and> (getJSON net c (SearchInstances_path s) = Inr r \<longrightarrow>
        SearchInstances net conv c s = Inr (Some []))
   \<and> (getJSON net c (GetClusterPoolInstancesForPool_path cl p) = Inr r \<longrightarrow>
        GetClusterPoolInstancesForPool net c cl p = Inr (Some []))
   \<and> (getJSON net c (GetHeuristicClusterPoolInstancesForPool_path cl p) = Inr r \<longrightarrow>
        GetHeuristicClusterPoolInstancesForPool net c cl p = Inr (Some []))
   \<and> (getJSON net c ''/api/raft-status'' = Inr r \<longrightarrow> GetRaftStatus net c = Inr (Some []))
   \<and> (BodyJSON resp = Some doc \<longrightarrow> go_unmarshal_APIResponse doc go_zero_APIResponse = Some a \<longrightarrow>
        go_Code a \<noteq> ''ERROR'' \<longrightarrow> go_Details a = GoNil \<longrightarrow>
        go_parseAPIResponse resp (Some conv) None = (Some a, None, None)
        \<and> (net' ''GET'' (go_leader c' @ ''/''
                  @ strings_TrimPrefix (go_GetHeuristicClusterPoolInstances_path cl p) ''/'')
               = Response resp \<longrightarrow>
             go_GetHeuristicClusterPoolInstances net' conv c' cl p = Inr None))"
proof -
  have 1: "convertToInstanceSlice conv (Details r) = Inr (Some [])"
    using assms by (simp add: convertToInstanceSlice_def)
  have 2: "convertToStringSlice (Details r) = Inr (Some [])"
    using assms by (simp add: convertToStringSlice_def)
  have 3: "getJSON net c (GetInstanceReplicas_path key) = Inr r \<longrightarrow>
        GetInstanceReplicas net conv c key = Inr (Some [])"
    using assms 1 by (simp add: GetInstanceReplicas_def)
  have 4: "getJSON net c (SearchInstances_path s) = Inr r \<longrightarrow>
        SearchInstances net conv c s = Inr (Some [])"
    using assms 1 by (simp add: SearchInstances_def)
  have 5: "getJSON net c (GetClusterPoolInstancesForPool_path cl p) = Inr r \<longrightarrow>
        GetClusterPoolInstancesForPool net c cl p = Inr (Some [])"
    using assms by (simp add: GetClusterPoolInstancesForPool_def convertToStringSlice_def range_of_def)
  have 6: "getJSON net c (GetHeuristicClusterPoolInstancesForPool_path cl p) = Inr r \<longrightarrow>
        GetHeuristicClusterPoolInstancesForPool net c cl p = Inr (Some [])"
    using assms
    by (simp add: GetHeuristicClusterPoolInstancesForPool_def convertToStringSlice_def range_of_def)
  have 7: "getJSON net c ''/api/raft-status'' = Inr r \<longrightarrow> GetRaftStatus net c = Inr (Some [])"
    using assms by (simp add: GetRaftStatus_def)
  have 8: "BodyJSON resp = Some doc \<longrightarrow> go_unmarshal_APIResponse doc go_zero_APIResponse = Some a \<longrightarrow>
        go_Code a \<noteq> ''ERROR'' \<longrightarrow> go_Details a = GoNil \<longrightarrow>
        go_parseAPIResponse resp (Some conv) None = (Some a, None, None)
        \<and> (net' ''GET'' (go_leader c' @ ''/''
                  @ strings_TrimPrefix (go_GetHeuristicClusterPoolInstances_path cl p) ''/'')
               = Response resp \<longrightarrow>
             go_GetHeuristicClusterPoolInstances net' conv c' cl p = Inr None)"
    by (simp add: go_parseAPIResponse_def go_GetHeuristicClusterPoolInstances_def go_doRequest_def)
  from 1 2 3 4 5 6 7 8 show ?thesis by blast
qed

theorem nil_Details_collections_witness:
  "GetInstanceReplicas (answering (ok_response ''null'' JNull)) no_conv_slice example_client
     example_key = Inr (Some [])
   \<and> SearchInstances (answering (ok_response ''null'' JNull)) no_conv_slice example_client ''x''
     = Inr (Some [])
   \<and> GetClusterPoolInstancesForPool (answering (ok_response ''null'' JNull)) example_client
       ''c'' ''p'' = Inr (Some [])
   \<and> GetHeuristicClusterPoolInstancesForPool (answering (ok_response ''null'' JNull))
       example_client ''c'' ''p'' = Inr (Some [])
   \<and> GetRaftStatus (answering (ok_response ''null'' JNull)) example_client = Inr (Some [])
   \<and> go_parseAPIResponse go_ok_null_response (Some no_conv_slice) None
     = (Some go_ok_null_envelope, None, None)"
proof -
  let ?r = "\<lparr>Code = 1, Message = ''ok'', Details = GoNil :: int goval\<rparr>"
  have g: "getJSON (answering (ok_response ''null'' JNull)) example_client path = Inr ?r"
    for path by (rule getJSON_ok_response) simp
  have c: "Code ?r = OK" by (simp add: OK_def)
  have d: "Details ?r = GoNil" by simp
  have b: "BodyJSON go_ok_null_response = Some go_ok_null_doc"
    by (simp add: go_ok_null_response_def)
  have e: "go_Code go_ok_null_envelope \<noteq> ''ERROR''" "go_Details go_ok_null_envelope = GoNil"
    by (simp_all add: go_ok_null_envelope_def)
  from nil_Details_collections [OF c d, where net = "answering (ok_response ''null'' JNull)"
      and c = example_client and conv = no_conv_slice and key = example_key and s = "''x''"
      and cl = "''c''" and p = "''p''" and resp = go_ok_null_response and doc = go_ok_null_doc
      and a = go_ok_null_envelope and net' = "answering go_ok_null_response"
      and c' = example_go_client]
  show ?thesis by (simp add: g b e go_unmarshal_ok_null)
qed


section \<open>Properties of leader resolution\<close>

lemma probe_loop_none:
  assumes "\<And>e l. check e l = (answer l (u e) = Some 200, l @ [u e])"
    and "\<forall>j<length es. answer (log @ map u (take j es)) (u (es ! j)) \<noteq> Some 200"
  shows "probe_loop check es log = (None, log @ map u es)"
  using assms(2)
proof (induction es arbitrary: log)
  case Nil
  then show ?case by simp
next
  case (Cons e es)
  from Cons.prems have h: "answer log (u e) \<noteq> Some 200" by fastforce
  have "\<forall>j<length es. answer ((log @ [u e]) @ map u (take j es)) (u (es ! j)) \<noteq> Some 200"
  proof (intro allI impI)
    fix j assume "j < length es"
    then have "Suc j < length (e # es)" by simp
    with Cons.prems have "answer (log @ map u (take (Suc j) (e # es))) (u ((e # es) ! Suc j)) \<noteq> Some 200"
      by blast
    then show "answer ((log @ [u e]) @ map u (take j es)) (u (es ! j)) \<noteq> Some 200" by simp
  qed
  from Cons.IH [OF this] h show ?case by (simp add: assms(1))
qed

lemma probe_loop_first:
  assumes "\<And>e l. check e l = (answer l (u e) = Some 200, l @ [u e])"
    and "i < length es"
    and "answer (log @ map u (take i es)) (u (es ! i)) = Some 200"
    and "\<forall>j<i. answer (log @ map u (take j es)) (u (es ! j)) \<noteq> Some 200"
  shows "probe_loop check es log = (Some (es ! i), log @ map u (take (Suc i) es))"
  using assms(2-4)
proof (induction es arbitrary: log i)
  case Nil
  then show ?case by simp
next
  case (Cons e es)
  show ?case
  proof (cases i)
    case 0
    with Cons.prems show ?thesis by (simp add: assms(1))
  next
    case (Suc k)
    with Cons.prems have k: "k < length es" by simp
    from Cons.prems Suc have h: "answer log (u e) \<noteq> Some 200" by fastforce
    from Cons.prems(2) Suc have y: "answer ((log @ [u e]) @ map u (take k es)) (u (es ! k)) = Some 200"
      by simp
    have n: "\<forall>j<k. answer ((log @ [u e]) @ map u (take j es)) (u (es ! j)) \<noteq> Some 200"
    proof (intro allI impI)
      fix j assume "j < k"
      then have "Suc j < i" using Suc by simp
      with Cons.prems(3) have "answer (log @ map u (take (Suc j) (e # es))) (u ((e # es) ! Suc j)) \<noteq> Some 200"
        by blast
      then show "answer ((log @ [u e]) @ map u (take j es)) (u (es ! j)) \<noteq> Some 200" by simp
    qed
    from Cons.IH [OF k y n] h Suc show ?thesis by (simp add: assms(1))
  qed
qed

lemma isLeader_recording:
  "isLeader (recording answer) c e l = (answer l (leader_url e) = Some 200, l @ [leader_url e])"
  by (cases "answer l (e @ ''/leader-check'')")
     (simp_all add: isLeader_def recording_def leader_url_def)

lemma hasRoutedLeader_recording:
  "hasRoutedLeader (recording answer) c e l = (answer l (routed_url e) = Some 200, l @ [routed_url e])"
  by (cases "answer l (e @ ''/routed-leader-check'')")
     (simp_all add: hasRoutedLeader_def recording_def routed_url_def)

lemma detectLeader_direct:
  assumes "i < length (go_endpoints c)"
    and "direct_yes answer log (go_endpoints c) i"
    and "\<forall>j<i. \<not> direct_yes answer log (go_endpoints c) j"
  shows "detectLeader (recording answer) c log
     = (Inr (c\<lparr>go_leader := go_endpoints c ! i\<rparr>),
        log @ map leader_url (take (Suc i) (go_endpoints c)))"
proof -
  have "probe_loop (isLeader (recording answer) c) (go_endpoints c) log
      = (Some (go_endpoints c ! i), log @ map leader_url (take (Suc i) (go_endpoints c)))"
    using assms
    by (intro probe_loop_first [where answer = answer]) (simp_all add: isLeader_recording direct_yes_def)
  then show ?thesis by (simp add: detectLeader_def)
qed

lemma detectLeader_routed:
  assumes "\<forall>j<length (go_endpoints c). \<not> direct_yes answer log (go_endpoints c) j"
    and "i < length (go_endpoints c)"
    and "routed_yes answer log (go_endpoints c) i"
    and "\<forall>j<i. \<not> routed_yes answer log (go_endpoints c) j"
  shows "detectLeader (recording answer) c log
     = (Inr (c\<lparr>go_leader := go_endpoints c ! i\<rparr>),
        log @ map leader_url (go_endpoints c) @ map routed_url (take (Suc i) (go_endpoints c)))"
proof -
  have 1: "probe_loop (isLeader (recording answer) c) (go_endpoints c) log
      = (None, log @ map leader_url (go_endpoints c))"
    using assms(1)
    by (intro probe_loop_none [where answer = answer]) (simp_all add: isLeader_recording direct_yes_def)
  have 2: "probe_loop (hasRoutedLeader (recording answer) c) (go_endpoints c)
        (log @ map leader_url (go_endpoints c))
      = (Some (go_endpoints c ! i),
         (log @ map leader_url (go_endpoints c)) @ map routed_url (take (Suc i) (go_endpoints c)))"
    using assms(2-4)
    by (intro probe_loop_first [where answer = answer])
       (simp_all add: hasRoutedLeader_recording routed_yes_def)
  from 1 2 show ?thesis by (simp add: detectLeader_def)
qed

lemma detectLeader_none:
  assumes "\<forall>j<length (go_endpoints c). \<not> direct_yes answer log (go_endpoints c) j"
    and "\<forall>j<length (go_endpoints c). \<not> routed_yes answer log (go_endpoints c) j"
  shows "detectLeader (recording answer) c log
     = (Inl (Errorf ''no leader found among endpoints''),
        log @ map leader_url (go_endpoints c) @ map routed_url (go_endpoints c))"
proof -
  have 1: "probe_loop (isLeader (recording answer) c) (go_endpoints c) log
      = (None, log @ map leader_url (go_endpoints c))"
    using assms(1)
    by (intro probe_loop_none [where answer = answer]) (simp_all add: isLeader_recording direct_yes_def)
  have 2: "probe_loop (hasRoutedLeader (recording answer) c) (go_endpoints c)
        (log @ map leader_url (go_endpoints c))
      = (None, (log @ map leader_url (go_endpoints c)) @ map routed_url (go_endpoints c))"
    using assms(2)
    by (intro probe_loop_none [where answer = answer])
       (simp_all add: hasRoutedLeader_recording routed_yes_def)
  from 1 2 show ?thesis by (simp add: detectLeader_def)
qed


text \<open>
  C4. With two or more endpoints \<open>NewClient\<close> sends the direct leader check to the
  normalised endpoints in their order and pins the first that answers with status 200,
  asking no endpoint after it; when none does, it sends the routed leader check to the
  endpoints in order and pins the first that answers with status 200; when none does
  either, it returns the error \<open>failed to detect leader: no leader found among
  endpoints\<close> and no client. With one endpoint that endpoint is pinned and with none
  the normalised base URL, both without a request. The list of requests records what was
  asked and in which order.
\<close>

theorem leader_resolution_in_order:
  assumes es: "es = normalizeEndpoints (Endpoints cfg)"
  shows
  "(2 \<le> length es \<longrightarrow>
      (\<forall>i<length es. direct_yes answer log es i \<and> (\<forall>j<i. \<not> direct_yes answer log es j) \<longrightarrow>
         (\<exists>c. go_NewClient (recording answer) (Some cfg) log
                 = (Inr c, log @ map leader_url (take (Suc i) es))
               \<and> go_leader c = es ! i \<and> go_endpoints c = es))
      \<and> ((\<forall>j<length es. \<not> direct_yes answer log es j) \<longrightarrow>
           (\<forall>i<length es. routed_yes answer log es i \<and> (\<forall>j<i. \<not> routed_yes answer log es j) \<longrightarrow>
              (\<exists>c. go_NewClient (recording answer) (Some cfg) log
                      = (Inr c, log @ map leader_url es @ map routed_url (take (Suc i) es))
                    \<and> go_leader c = es ! i \<and> go_endpoints c = es))
           \<and> ((\<forall>j<length es. \<not> routed_yes answer log es j) \<longrightarrow>
                go_NewClient (recording answer) (Some cfg) log
                  = (Inl (Errorf ''failed to detect leader: no leader found among endpoints''),
                     log @ map leader_url es @ map routed_url es))))
   \<and> (length es = 1 \<longrightarrow>
        (\<exists>c. go_NewClient (recording answer) (Some cfg) log = (Inr c, log)
              \<and> go_leader c = es ! 0 \<and> go_endpoints c = es))
   \<and> (es = [] \<longrightarrow>
        (\<exists>c. go_NewClient (recording answer) (Some cfg) log = (Inr c, log)
              \<and> go_leader c = normalizeURL (BaseURL cfg) \<and> go_baseURL c = normalizeURL (BaseURL cfg)))"
proof -
  define c0 where "c0 = \<lparr>go_baseURL = normalizeURL (BaseURL cfg), go_username = Username cfg,
      go_password = Password cfg, go_headers = Headers cfg, go_leader = [],
      go_endpoints = normalizeEndpoints (Endpoints cfg)\<rparr>"
  have e0: "go_endpoints c0 = es" by (simp add: c0_def es)
  have many: "go_NewClient (recording answer) (Some cfg) log
      = (case detectLeader (recording answer) c0 log of
           (Inl err, w') \<Rightarrow> (Inl (wrap_error ''failed to detect leader: '' err), w')
         | (Inr client', w') \<Rightarrow> (Inr client', w'))"
    if "2 \<le> length es"
    using that by (simp add: go_NewClient_def Let_def c0_def es)
  have d: "\<exists>c. go_NewClient (recording answer) (Some cfg) log
                 = (Inr c, log @ map leader_url (take (Suc i) es))
               \<and> go_leader c = es ! i \<and> go_endpoints c = es"
    if "2 \<le> length es" "i < length es" "direct_yes answer log es i"
      "\<forall>j<i. \<not> direct_yes answer log es j" for i
  proof -
    have "detectLeader (recording answer) c0 log
        = (Inr (c0\<lparr>go_leader := es ! i\<rparr>), log @ map leader_url (take (Suc i) es))"
      using detectLeader_direct [of i c0 answer log] that e0 by simp
    with many [OF that(1)] e0 show ?thesis by simp
  qed
  have r: "\<exists>c. go_NewClient (recording answer) (Some cfg) log
                 = (Inr c, log @ map leader_url es @ map routed_url (take (Suc i) es))
               \<and> go_leader c = es ! i \<and> go_endpoints c = es"
    if "2 \<le> length es" "\<forall>j<length es. \<not> direct_yes answer log es j" "i < length es"
      "routed_yes answer log es i" "\<forall>j<i. \<not> routed_yes answer log es j" for i
  proof -
    have "detectLeader (recording answer) c0 log
        = (Inr (c0\<lparr>go_leader := es ! i\<rparr>),
           log @ map leader_url es @ map routed_url (take (Suc i) es))"
      using detectLeader_routed [of c0 answer log i] that e0 by simp
    with many [OF that(1)] e0 show ?thesis by simp
  qed
  have n: "go_NewClient (recording answer) (Some cfg) log
             = (Inl (Errorf ''failed to detect leader: no leader found among endpoints''),
                log @ map leader_url es @ map routed_url es)"
    if "2 \<le> length es" "\<forall>j<length es. \<not> direct_yes answer log es j"
      "\<forall>j<length es. \<not> routed_yes answer log es j"
  proof -
    have "detectLeader (recording answer) c0 log
        = (Inl (Errorf ''no leader found among endpoints''),
           log @ map leader_url es @ map routed_url es)"
      using detectLeader_none [of c0 answer log] that e0 by simp
    with many [OF that(1)] show ?thesis by (simp add: wrap_error_def)
  qed
  have one: "\<exists>c. go_NewClient (recording answer) (Some cfg) log = (Inr c, log)
              \<and> go_leader c = es ! 0 \<and> go_endpoints c = es"
    if "length es = 1"
    using that by (simp add: go_NewClient_def Let_def es)
  have zero: "\<exists>c. go_NewClient (recording answer) (Some cfg) log = (Inr c, log)
              \<and> go_leader c = normalizeURL (BaseURL cfg) \<and> go_baseURL c = normalizeURL (BaseURL cfg)"
    if "es = []"
    using that es by (simp add: go_NewClient_def Let_def)
  from d r n one zero show ?thesis by blast
qed

lemma normalizeEndpoints_a_b:
  "normalizeEndpoints [''http://a'', ''http://b/''] = [''http://a/api'', ''http://b/api'']"
  by (simp add: normalizeEndpoints_def normalizeURL_def strings_TrimSuffix_def strings_HasSuffix_def)

lemma normalizeEndpoints_a: "normalizeEndpoints [''http://a''] = [''http://a/api'']"
  by (simp add: normalizeEndpoints_def normalizeURL_def strings_TrimSuffix_def strings_HasSuffix_def)

lemma normalizeURL_base: "normalizeURL ''http://base:3000/'' = ''http://base:3000/api''"
  by (simp add: normalizeURL_def strings_TrimSuffix_def strings_HasSuffix_def)

theorem leader_resolution_in_order_witness:
  "map_sum id go_leader (fst (go_NewClient (recording b_is_leader)
       (Some (example_config [''http://a'', ''http://b/''])) []))
     = Inr ''http://b/api''
   \<and> snd (go_NewClient (recording b_is_leader) (Some (example_config [''http://a'', ''http://b/''])) [])
     = [''http://a/api/leader-check'', ''http://b/api/leader-check'']
   \<and> map_sum id go_leader (fst (go_NewClient (recording a_routes)
       (Some (example_config [''http://a'', ''http://b/''])) []))
     = Inr ''http://a/api''
   \<and> snd (go_NewClient (recording a_routes) (Some (example_config [''http://a'', ''http://b/''])) [])
     = [''http://a/api/leader-check'', ''http://b/api/leader-check'',
        ''http://a/api/routed-leader-check'']
   \<and> go_NewClient (recording unreachable) (Some (example_config [''http://a'', ''http://b/''])) []
     = (Inl (Errorf ''failed to detect leader: no leader found among endpoints''),
        [''http://a/api/leader-check'', ''http://b/api/leader-check'',
         ''http://a/api/routed-leader-check'', ''http://b/api/routed-leader-check''])
   \<and> map_sum id go_leader (fst (go_NewClient (recording unreachable)
       (Some (example_config [''http://a''])) []))
     = Inr ''http://a/api''
   \<and> snd (go_NewClient (recording unreachable) (Some (example_config [''http://a''])) []) = []
   \<and> map_sum id go_leader (fst (go_NewClient (recording unreachable) (Some (example_config [])) []))
     = Inr ''http://base:3000/api''
   \<and> snd (go_NewClient (recording unreachable) (Some (example_config [])) []) = []"
proof -
  let ?es = "[''http://a/api'', ''http://b/api'']"
  let ?cfg = "example_config [''http://a'', ''http://b/'']"
  have es: "?es = normalizeEndpoints (Endpoints ?cfg)"
    by (simp add: example_config_def normalizeEndpoints_a_b)
  have len: "2 \<le> length ?es" by simp
  \<comment> \<open>the second endpoint answers the direct check\<close>
  have b1: "1 < length ?es" by simp
  have b2: "direct_yes b_is_leader [] ?es 1 \<and> (\<forall>j<1. \<not> direct_yes b_is_leader [] ?es j)"
    by (simp add: direct_yes_def b_is_leader_def leader_url_def)
  from leader_resolution_in_order [OF es, of b_is_leader "[]"] len b1 b2
  obtain c1 where c1: "go_NewClient (recording b_is_leader) (Some ?cfg) []
        = (Inr c1, [] @ map leader_url (take (Suc 1) ?es))" "go_leader c1 = ?es ! 1"
    by blast
  \<comment> \<open>no endpoint answers the direct check, the first answers the routed check\<close>
  have a1: "\<forall>j<length ?es. \<not> direct_yes a_routes [] ?es j"
    by (simp add: direct_yes_def a_routes_def leader_url_def All_less_Suc numeral_2_eq_2)
  have a2: "0 < length ?es" by simp
  have a3: "routed_yes a_routes [] ?es 0 \<and> (\<forall>j<0. \<not> routed_yes a_routes [] ?es j)"
    by (simp add: routed_yes_def a_routes_def routed_url_def leader_url_def)
  from leader_resolution_in_order [OF es, of a_routes "[]"] len a1 a2 a3
  obtain c2 where c2: "go_NewClient (recording a_routes) (Some ?cfg) []
        = (Inr c2, [] @ map leader_url ?es @ map routed_url (take (Suc 0) ?es))"
      "go_leader c2 = ?es ! 0"
    by blast
  \<comment> \<open>no endpoint answers either check\<close>
  have u1: "\<forall>j<length ?es. \<not> direct_yes unreachable [] ?es j"
    by (simp add: direct_yes_def unreachable_def)
  have u2: "\<forall>j<length ?es. \<not> routed_yes unreachable [] ?es j"
    by (simp add: routed_yes_def unreachable_def)
  from leader_resolution_in_order [OF es, of unreachable "[]"] len u1 u2
  have c3: "go_NewClient (recording unreachable) (Some ?cfg) []
        = (Inl (Errorf ''failed to detect leader: no leader found among endpoints''),
           [] @ map leader_url ?es @ map routed_url ?es)"
    by blast
  \<comment> \<open>one endpoint, and none\<close>
  have es1: "[''http://a/api''] = normalizeEndpoints (Endpoints (example_config [''http://a'']))"
    by (simp add: example_config_def normalizeEndpoints_a)
  from leader_resolution_in_order [OF es1, of unreachable "[]"]
  obtain c4 where c4: "go_NewClient (recording unreachable) (Some (example_config [''http://a''])) []
        = (Inr c4, [])" "go_leader c4 = [''http://a/api''] ! 0"
    by auto
  have es0: "[] = normalizeEndpoints (Endpoints (example_config []))"
    by (simp add: example_config_def normalizeEndpoints_def)
  from leader_resolution_in_order [OF es0, of unreachable "[]"]
  obtain c5 where c5: "go_NewClient (recording unreachable) (Some (example_config [])) []
        = (Inr c5, [])" "go_leader c5 = normalizeURL (BaseURL (example_config []))"
    by auto
  have c5': "go_leader c5 = ''http://base:3000/api''"
    using c5(2) by (simp add: example_config_def normalizeURL_base)
  from c1 c2 c3 c4 c5(1) c5' show ?thesis
    by (simp add: leader_url_def routed_url_def)
qed


section \<open>Properties of request paths\<close>

lemma upperhex_is_hex: "d < 16 \<Longrightarrow> is_hex (upperhex d)"
proof -
  assume "d < 16"
  then have "d = 0 \<or> d = 1 \<or> d = 2 \<or> d = 3 \<or> d = 4 \<or> d = 5 \<or> d = 6 \<or> d = 7 \<or> d = 8
      \<or> d = 9 \<or> d = 10 \<or> d = 11 \<or> d = 12 \<or> d = 13 \<or> d = 14 \<or> d = 15"
    by arith
  then show ?thesis by (auto simp: upperhex_def is_hex_def)
qed

lemma upperhex_not_slash: "d < 16 \<Longrightarrow> upperhex d \<noteq> CHR ''/''"
  using upperhex_is_hex [of d] by (auto simp: is_hex_def)

lemma unreserved_not_special:
  "is_unreserved c \<Longrightarrow> c \<noteq> CHR ''%'' \<and> c \<noteq> CHR ''/''"
  by (auto simp: is_unreserved_def is_alnum_def)

lemma of_char_div_16: "(of_char c :: nat) div 16 < 16"
proof -
  have "(of_char c :: nat) < 256" by (rule nat_of_char_less_256)
  then show ?thesis by arith
qed

lemma segment_ok_escape_byte: "segment_ok rest \<Longrightarrow> segment_ok (escape_byte c @ rest)"
  using unreserved_not_special [of c] upperhex_is_hex [OF of_char_div_16 [of c]]
    upperhex_is_hex [of "(of_char c :: nat) mod 16"]
  by (auto simp: escape_byte_def)

lemma segment_ok_QueryEscape: "segment_ok (url_QueryEscape s)"
  by (induction s) (simp_all add: url_QueryEscape_def segment_ok_escape_byte)

lemma escape_byte_no_slash: "CHR ''/'' \<notin> set (escape_byte c)"
  using unreserved_not_special [of c] upperhex_not_slash [OF of_char_div_16 [of c]]
    upperhex_not_slash [of "(of_char c :: nat) mod 16"]
  by (auto simp: escape_byte_def)

lemma QueryEscape_no_slash: "CHR ''/'' \<notin> set (url_QueryEscape s)"
  by (induction s) (simp_all add: url_QueryEscape_def escape_byte_no_slash)

text \<open>
  The string-code client escapes the search string, so the path of \<open>Search\<close> is well
  formed for every input.
\<close>

lemma go_Search_path_wellformed: "path_wellformed (go_Search_path s)"
proof -
  have "strings_Split (''search'' @ CHR ''/'' # url_QueryEscape s) (CHR ''/'')
      = ''search'' # strings_Split (url_QueryEscape s) (CHR ''/'')"
    by (rule Split_append) simp
  then have "strings_Split (''search/'' @ url_QueryEscape s) (CHR ''/'')
      = [''search'', url_QueryEscape s]"
    by (simp add: Split_no_sep [OF QueryEscape_no_slash])
  moreover have "segment_ok ''search''" by (simp add: is_unreserved_def is_alnum_def)
  ultimately show ?thesis
    by (simp add: path_wellformed_def go_Search_path_def segment_ok_QueryEscape)
qed

text \<open>
  \<open>BeginDowntime\<close> escapes the owner and the reason, so its path is well formed
  whenever the host name of the key is made of unreserved characters.
\<close>

lemma Split_nonempty: "strings_Split s sep \<noteq> []"
  by (induction s) (auto split: list.splits)

lemma Split_snoc:
  "sep \<notin> set seg \<Longrightarrow> strings_Split (a @ sep # seg) sep = strings_Split a sep @ [seg]"
proof (induction a)
  case Nil
  then show ?case by (simp add: Split_no_sep)
next
  case (Cons c a)
  obtain q qs where "strings_Split a sep = q # qs"
    using Split_nonempty [of a sep] by (cases "strings_Split a sep") auto
  with Cons show ?case by simp
qed

lemma path_wellformed_single:
  "segment_ok seg \<Longrightarrow> CHR ''/'' \<notin> set seg \<Longrightarrow> path_wellformed (CHR ''/'' # seg)"
  by (simp add: path_wellformed_def Split_no_sep)

lemma path_wellformed_snoc:
  assumes "path_wellformed p" and "segment_ok seg" and "CHR ''/'' \<notin> set seg"
  shows "path_wellformed (p @ CHR ''/'' # seg)"
proof -
  from assms(1) obtain cs where p: "p = CHR ''/'' # cs"
    and ok: "list_all segment_ok (strings_Split cs (CHR ''/''))"
    by (cases p) (auto simp: path_wellformed_def)
  show ?thesis
    using ok assms(2) by (simp add: p path_wellformed_def Split_snoc [OF assms(3)])
qed

lemma unreserved_segment:
  "list_all is_unreserved s \<Longrightarrow> segment_ok s \<and> CHR ''/'' \<notin> set s"
  using unreserved_not_special by (induction s) auto

lemma is_digit_unreserved: "is_digit c \<Longrightarrow> is_unreserved c"
  by (auto simp: is_digit_def is_unreserved_def is_alnum_def)

lemma Sprintf_d_unreserved: "list_all is_unreserved (fmt_Sprintf_d p)"
proof -
  have "list_all is_digit (fmt_digits n)" for n using fmt_digits_props [of n] by simp
  then have d: "list_all is_unreserved (fmt_digits n)" for n
    using is_digit_unreserved by (auto simp: list_all_iff)
  have "is_unreserved (CHR ''-'')" by (simp add: is_unreserved_def)
  with d show ?thesis by (simp add: fmt_Sprintf_d_def)
qed

lemma go_BeginDowntime_path_wellformed:
  assumes "list_all is_unreserved (Hostname k)"
  shows "path_wellformed (go_BeginDowntime_path k owner reason duration seconds)"
proof -
  let ?port = "fmt_Sprintf_d (Port k)"
  let ?o = "url_QueryEscape owner"
  let ?r = "url_QueryEscape reason"
  have "list_all is_unreserved ''begin-downtime''"
    by (simp add: is_unreserved_def is_alnum_def)
  then have 0: "path_wellformed (CHR ''/'' # ''begin-downtime'')"
    using unreserved_segment path_wellformed_single by blast
  have 1: "path_wellformed ((CHR ''/'' # ''begin-downtime'') @ CHR ''/'' # Hostname k)"
    using path_wellformed_snoc [OF 0] unreserved_segment [OF assms] by blast
  have 2: "path_wellformed (((CHR ''/'' # ''begin-downtime'') @ CHR ''/'' # Hostname k)
      @ CHR ''/'' # ?port)"
    using path_wellformed_snoc [OF 1] unreserved_segment [OF Sprintf_d_unreserved] by blast
  have 3: "path_wellformed ((((CHR ''/'' # ''begin-downtime'') @ CHR ''/'' # Hostname k)
      @ CHR ''/'' # ?port) @ CHR ''/'' # ?o)"
    using path_wellformed_snoc [OF 2 segment_ok_QueryEscape QueryEscape_no_slash] .
  have 4: "path_wellformed (((((CHR ''/'' # ''begin-downtime'') @ CHR ''/'' # Hostname k)
      @ CHR ''/'' # ?port) @ CHR ''/'' # ?o) @ CHR ''/'' # ?r)"
    using path_wellformed_snoc [OF 3 segment_ok_QueryEscape QueryEscape_no_slash] .
  have "list_all is_unreserved (fmt_Sprintf_d seconds @ ''s'')"
    using Sprintf_d_unreserved [of seconds] by (simp add: is_unreserved_def is_alnum_def)
  then have 5: "path_wellformed ((((((CHR ''/'' # ''begin-downtime'') @ CHR ''/'' # Hostname k)
      @ CHR ''/'' # ?port) @ CHR ''/'' # ?o) @ CHR ''/'' # ?r)
      @ CHR ''/'' # (fmt_Sprintf_d seconds @ ''s''))"
    using path_wellformed_snoc [OF 4] unreserved_segment by blast
  show ?thesis
  proof (cases "duration > 0")
    case True
    with 5 show ?thesis by (simp add: go_BeginDowntime_path_def)
  next
    case False
    with 4 show ?thesis by (simp add: go_BeginDowntime_path_def)
  qed
qed

lemma QueryEscape_example: "url_QueryEscape ''a b/c?d'' = ''a+b%2Fc%3Fd''"
  by (simp add: url_QueryEscape_def escape_byte_def is_unreserved_def is_alnum_def upperhex_def)

text \<open>
  C6. The string-code client passes every free-form parameter through
  \<open>url.QueryEscape\<close> (\<open>Search\<close> and \<open>BeginDowntime\<close> above), and the package of the integer-code client has the helper
  \<open>buildPath\<close> that escapes path parameters, but \<open>SearchInstances\<close> of the
  integer-code client puts the search string into the path as it is. For the search
  string \<open>a b/c?d\<close> its path contains a space, a further slash and a question mark and
  is not well formed, where \<open>Search\<close> of the string-code client builds a well-formed
  path.
\<close>

theorem SearchInstances_path_unescaped:
  "SearchInstances_path ''a b/c?d'' = ''/api/search/a b/c?d''
   \<and> \<not> path_wellformed (SearchInstances_path ''a b/c?d'')
   \<and> go_Search_path ''a b/c?d'' = ''/search/a+b%2Fc%3Fd''
   \<and> path_wellformed (go_Search_path ''a b/c?d'')"
proof -
  have 1: "SearchInstances_path ''a b/c?d'' = ''/api/search/a b/c?d''"
    by (simp add: SearchInstances_path_def)
  have 2: "\<not> path_wellformed ''/api/search/a b/c?d''"
    by (simp add: path_wellformed_def is_unreserved_def is_alnum_def)
  have 3: "go_Search_path ''a b/c?d'' = ''/search/a+b%2Fc%3Fd''"
    by (simp add: go_Search_path_def QueryEscape_example)
  from 1 2 3 go_Search_path_wellformed [of "''a b/c?d''"] show ?thesis by simp
qed


section \<open>Properties of endpoint normalisation\<close>

lemma HasSuffix_append: "strings_HasSuffix (b @ suf) suf"
  by (simp add: strings_HasSuffix_def)

lemma HasSuffix_last:
  assumes "strings_HasSuffix s suf" and "suf \<noteq> []"
  shows "s \<noteq> [] \<and> last s = last suf"
proof -
  from assms have len: "length suf \<le> length s"
    and d: "drop (length s - length suf) s = suf"
    by (simp_all add: strings_HasSuffix_def)
  from d assms(2) have "s \<noteq> []" by auto
  moreover have "last s = last suf"
  proof -
    have "s = take (length s - length suf) s @ suf"
      using d by (metis append_take_drop_id)
    then have "last s = last (take (length s - length suf) s @ suf)" by simp
    then show ?thesis using assms(2) by simp
  qed
  ultimately show ?thesis by simp
qed

lemma TrimSuffix_no_slash:
  assumes "strings_HasSuffix s ''/api''"
  shows "strings_TrimSuffix s ''/'' = s"
proof -
  from HasSuffix_last [OF assms] have "s \<noteq> []" and "last s = CHR ''i''" by simp_all
  then have "\<not> strings_HasSuffix s ''/''"
    using HasSuffix_last [of s "''/''"] by auto
  then show ?thesis by (simp add: strings_TrimSuffix_def)
qed

lemma normalizeURL_suffix: "strings_HasSuffix (normalizeURL u) ''/api''"
  unfolding normalizeURL_def Let_def
  by (simp add: HasSuffix_append del: strings_HasSuffix_def)

lemma normalizeURL_idem: "normalizeURL (normalizeURL u) = normalizeURL u"
proof -
  have s: "strings_HasSuffix (normalizeURL u) ''/api''" by (rule normalizeURL_suffix)
  then have "strings_TrimSuffix (normalizeURL u) ''/'' = normalizeURL u"
    by (rule TrimSuffix_no_slash)
  then show ?thesis
    using s by (simp add: normalizeURL_def [of "normalizeURL u"] Let_def)
qed

lemma TrimSuffix_slash: "strings_TrimSuffix (u @ ''/'') ''/'' = u"
  by (simp add: strings_TrimSuffix_def strings_HasSuffix_def)

lemma normalizeEndpoints_loop_map:
  "normalizeEndpoints_loop acc es = acc @ map normalizeURL es"
  by (induction es arbitrary: acc) simp_all

text \<open>
  C8. Normalisation strips one trailing slash and appends \<open>/api\<close> unless it is
  already the suffix: every normalised URL ends with \<open>/api\<close>, normalising twice is
  the same as normalising once, a URL with a trailing slash normalises as the URL
  without it does after the slash is removed, and \<open>normalizeEndpoints\<close> normalises each
  endpoint in order.
\<close>

theorem normalizeURL_api_suffix_idempotent:
  "strings_HasSuffix (normalizeURL u) ''/api''
   \<and> normalizeURL (normalizeURL u) = normalizeURL u
   \<and> normalizeURL (u @ ''/'') = (if strings_HasSuffix u ''/api'' then u else u @ ''/api'')
   \<and> normalizeEndpoints es = map normalizeURL es
   \<and> normalizeEndpoints (normalizeEndpoints es) = normalizeEndpoints es"
proof -
  have a: "normalizeURL (u @ ''/'') = (if strings_HasSuffix u ''/api'' then u else u @ ''/api'')"
    by (simp add: normalizeURL_def [of "u @ ''/''"] TrimSuffix_slash Let_def)
  have b: "normalizeEndpoints es = map normalizeURL es" for es
    by (simp add: normalizeEndpoints_def normalizeEndpoints_loop_map)
  have c: "normalizeEndpoints (normalizeEndpoints es) = normalizeEndpoints es"
    by (simp add: b normalizeURL_idem)
  show ?thesis using normalizeURL_suffix normalizeURL_idem a b c by blast
qed

theorem normalizeURL_api_suffix_idempotent_witness:
  "strings_HasSuffix (normalizeURL ''http://localhost:3000/'') ''/api''
   \<and> normalizeURL ''http://localhost:3000/'' = ''http://localhost:3000/api''
   \<and> normalizeURL (normalizeURL ''http://localhost:3000/'') = ''http://localhost:3000/api''"
proof -
  have v: "normalizeURL ''http://localhost:3000/'' = ''http://localhost:3000/api''"
    by (simp add: normalizeURL_def strings_TrimSuffix_def strings_HasSuffix_def)
  show ?thesis
    using normalizeURL_api_suffix_idempotent [of "''http://localhost:3000/''" "[]"] v by simp
qed


end
